theory Spec2Isabelle
  imports Complex_Main "HOL-Library.AList" "HOL-Library.Log_Nat"
begin

section \<open>Values, errors and the inference layer\<close>

text \<open>
  \<^verbatim>\<open>JSON.parse(response.text) as HackathonData\<close> is a cast, not a check: what the
  service layer works on is whatever value the parser produced. A parsed value is
  \<open>null\<close>, a boolean, a number, a string, an array or an object. An array is an object
  too, so an assignment \<^verbatim>\<open>a.k = v\<close> gives it a named property; \<open>JArr es ps\<close> carries
  the elements \<open>es\<close> and these named properties \<open>ps\<close> (none right after parsing).
  Numbers are the rationals (every finite double is one; the parser yields no NaN).
  \<open>undefined\<close> is no parsed value: it is what reading an absent property gives, and is
  modelled by \<open>None\<close>.
\<close>

datatype jsval =
    JNull
  | JBool bool
  | JNum rat
  | JStr string
  | JArr "jsval list" "(string \<times> jsval) list"
  | JObj "(string \<times> jsval) list"

datatype error =
    Error string
  | TypeError
  | SyntaxError
  | Rejected string

text \<open>
  The reply of \<^verbatim>\<open>ai.models.generateContent\<close>: its \<^verbatim>\<open>text\<close> is a string or
  \<open>undefined\<close>. The call itself is a promise and may reject.
\<close>

record response =
  resp_text :: "string option"

text \<open>JavaScript truthiness of a value read from a property.\<close>

fun truthy :: "jsval option \<Rightarrow> bool" where
  "truthy None = False"
| "truthy (Some JNull) = False"
| "truthy (Some (JBool b)) = b"
| "truthy (Some (JNum n)) = (n \<noteq> 0)"
| "truthy (Some (JStr s)) = (s \<noteq> [])"
| "truthy (Some (JArr es ps)) = True"
| "truthy (Some (JObj ps)) = True"

fun isArray :: "jsval option \<Rightarrow> bool" where
  "isArray (Some (JArr es ps)) = True"
| "isArray v = False"

text \<open>
  Reading \<^verbatim>\<open>d.k\<close> and writing \<^verbatim>\<open>d.k = v\<close>, for the property names the
  program uses (none of them is an index, \<^verbatim>\<open>length\<close>, or a name inherited from a
  prototype). Reading a property of \<open>null\<close> throws a TypeError; reading one of a boolean,
  number or string gives \<open>undefined\<close>. The service file is an ES module, hence strict code:
  writing a property of \<open>null\<close> or of a primitive throws a TypeError.
\<close>

fun getProp :: "jsval \<Rightarrow> string \<Rightarrow> error + jsval option" where
  "getProp JNull k = Inl TypeError"
| "getProp (JObj ps) k = Inr (map_of ps k)"
| "getProp (JArr es ps) k = Inr (map_of ps k)"
| "getProp d k = Inr None"

fun setProp :: "jsval \<Rightarrow> string \<Rightarrow> jsval \<Rightarrow> error + jsval" where
  "setProp (JObj ps) k v = Inr (JObj (AList.update k v ps))"
| "setProp (JArr es ps) k v = Inr (JArr es (AList.update k v ps))"
| "setProp d k v = Inl TypeError"

section \<open>analyzeHackathonUrl\<close>

text \<open>The built-in panel of lines 99-118 and the strategy of lines 122-127.\<close>

definition technicalJudge :: jsval where
  "technicalJudge = JObj
     [(''name'', JStr ''The Technical Judge''),
      (''role'', JStr ''Senior Engineer''),
      (''company'', JStr ''Tech Corp''),
      (''values'', JArr [JStr ''Clean Code'', JStr ''Scalability''] []),
      (''focusAreas'', JArr [JStr ''Architecture'', JStr ''Stack choice''] []),
      (''redFlags'', JArr [JStr ''Spaghetti code'', JStr ''Security flaws''] []),
      (''recommendedTalkingPoints'',
         JArr [JStr ''Mention your tech stack'', JStr ''Explain how it scales''] [])]"

definition productJudge :: jsval where
  "productJudge = JObj
     [(''name'', JStr ''The Product Judge''),
      (''role'', JStr ''Product Manager''),
      (''company'', JStr ''Innovation Inc''),
      (''values'', JArr [JStr ''User Experience'', JStr ''Problem/Solution Fit''] []),
      (''focusAreas'', JArr [JStr ''UI/UX'', JStr ''User Journey''] []),
      (''redFlags'', JArr [JStr ''Confusing UI'', JStr ''No clear problem statement''] []),
      (''recommendedTalkingPoints'',
         JArr [JStr ''Show the user flow'',
               JStr (''Explain the '' @ [CHR 0x27] @ ''Why'' @ [CHR 0x27])] [])]"

definition fallbackJudges :: jsval where
  "fallbackJudges = JArr [technicalJudge, productJudge] []"

definition defaultStrategy :: jsval where
  "defaultStrategy = JObj
     [(''structure'', JArr [] []),
      (''keyPhrases'', JArr [] []),
      (''featuresToEmphasize'', JArr [] []),
      (''generatedScript'', JStr ''Could not generate script. Please try analyzing again.'')]"

text \<open>
  Line 97: \<^verbatim>\<open>!data.judges || !Array.isArray(data.judges) || data.judges.length === 0\<close>,
  on the value \<open>j\<close> read from \<^verbatim>\<open>data.judges\<close>. The length is read only of an array.
\<close>

definition noJudges :: "jsval option \<Rightarrow> bool" where
  "noJudges j \<longleftrightarrow>
     \<not> truthy j \<or> \<not> isArray j \<or> (case j of Some (JArr es ps) \<Rightarrow> length es = 0 | _ \<Rightarrow> False)"

text \<open>Lines 97-119.\<close>

definition sanitizeJudges :: "jsval \<Rightarrow> error + jsval" where
  "sanitizeJudges data =
     (case getProp data ''judges'' of
        Inl e \<Rightarrow> Inl e
      | Inr j \<Rightarrow> if noJudges j then setProp data ''judges'' fallbackJudges else Inr data)"

text \<open>Lines 121-128.\<close>

definition sanitizeStrategy :: "jsval \<Rightarrow> error + jsval" where
  "sanitizeStrategy data =
     (case getProp data ''strategy'' of
        Inl e \<Rightarrow> Inl e
      | Inr s \<Rightarrow> if \<not> truthy s then setProp data ''strategy'' defaultStrategy else Inr data)"

text \<open>
  One line of 131-133: \<^verbatim>\<open>if (!data.strategy.k) data.strategy.k = v\<close>. The strategy object
  is changed in place; a parsed value is a tree, no part of it is shared, so the change is
  the same as storing the changed strategy back under \<^verbatim>\<open>data.strategy\<close>.
\<close>

definition ensureStrategyProp :: "string \<Rightarrow> jsval \<Rightarrow> jsval \<Rightarrow> error + jsval" where
  "ensureStrategyProp k v data =
     (case getProp data ''strategy'' of
        Inl e \<Rightarrow> Inl e
      | Inr None \<Rightarrow> Inl TypeError
      | Inr (Some s) \<Rightarrow>
          (case getProp s k of
             Inl e \<Rightarrow> Inl e
           | Inr x \<Rightarrow>
               if \<not> truthy x
               then (case setProp s k v of
                       Inl e \<Rightarrow> Inl e
                     | Inr s' \<Rightarrow> setProp data ''strategy'' s')
               else Inr data))"

text \<open>Running the next statement unless the previous one threw.\<close>

definition andThen :: "error + 'a \<Rightarrow> ('a \<Rightarrow> error + 'b) \<Rightarrow> error + 'b" where
  "andThen r f = (case r of Inl e \<Rightarrow> Inl e | Inr x \<Rightarrow> f x)"

text \<open>The data sanitation of lines 96-135, on the parsed value.\<close>

definition sanitize :: "jsval \<Rightarrow> error + jsval" where
  "sanitize data =
     andThen (sanitizeJudges data) (\<lambda>d1.
     andThen (sanitizeStrategy d1) (\<lambda>d2.
     andThen (ensureStrategyProp ''generatedScript'' (JStr ''Script generation incomplete.'') d2) (\<lambda>d3.
     andThen (ensureStrategyProp ''structure'' (JArr [] []) d3) (\<lambda>d4.
     ensureStrategyProp ''keyPhrases'' (JArr [] []) d4))))"

text \<open>
  The whole function. The request sent to the inference layer is fixed by \<open>url\<close> (the
  prompt is a template around it; model name, schema and search tool are constants), so the
  layer is a function \<open>generateContent\<close> of \<open>url\<close>, whose result is the settled promise.
  \<open>JSON_parse\<close> is the runtime's parser, \<open>None\<close> when it throws. The outer
  \<^verbatim>\<open>catch\<close> logs and rethrows, so every error leaves the function as it is.
\<close>

definition analyzeHackathonUrl ::
  "(string \<Rightarrow> jsval option) \<Rightarrow> (string \<Rightarrow> error + response) \<Rightarrow> string \<Rightarrow> error + jsval" where
  "analyzeHackathonUrl JSON_parse generateContent url =
     (case generateContent url of
        Inl e \<Rightarrow> Inl e
      | Inr response \<Rightarrow>
          (case resp_text response of
             None \<Rightarrow> Inl (Error ''No data returned from Gemini'')
           | Some t \<Rightarrow>
               if t \<noteq> []
               then (case JSON_parse t of
                       None \<Rightarrow> Inl (Error ''Invalid JSON response from AI'')
                     | Some data \<Rightarrow> sanitize data)
               else Inl (Error ''No data returned from Gemini'')))"

text \<open>
  Reading the returned value in the statements below: a property (\<open>None\<close> for
  \<open>undefined\<close>), and the elements of an array.
\<close>

definition readProp :: "jsval \<Rightarrow> string \<Rightarrow> jsval option" where
  "readProp d k = (case getProp d k of Inl e \<Rightarrow> None | Inr v \<Rightarrow> v)"

fun elements :: "jsval option \<Rightarrow> jsval list" where
  "elements (Some (JArr es ps)) = es"
| "elements v = []"

definition judgeLists :: "string list" where
  "judgeLists = [''values'', ''focusAreas'', ''redFlags'', ''recommendedTalkingPoints'']"

fun readPath :: "jsval \<Rightarrow> string list \<Rightarrow> jsval option" where
  "readPath d [] = Some d"
| "readPath d (k # ks) = (case readProp d k of None \<Rightarrow> None | Some v \<Rightarrow> readPath v ks)"

fun nonEmptyString :: "jsval option \<Rightarrow> bool" where
  "nonEmptyString (Some (JStr s)) = (s \<noteq> [])"
| "nonEmptyString v = False"

text \<open>
  Two inference layers for the concrete runs below: one that answers every request with the
  text \<open>t\<close>, one that rejects every request with \<open>e\<close>. In those runs the parser is a
  finite table from texts to values, \<open>map_of\<close> of the table.
\<close>

definition replies :: "string \<Rightarrow> 'req \<Rightarrow> error + response" where
  "replies t request = Inr \<lparr>resp_text = Some t\<rparr>"

definition rejects :: "error \<Rightarrow> 'req \<Rightarrow> error + response" where
  "rejects e request = Inl e"

section \<open>analyzeVideoDemo\<close>

text \<open>
  The parameter \<^verbatim>\<open>hackathonData: HackathonData\<close> is read at its declared type
  (\<^verbatim>\<open>src/types.ts\<close>); \<open>judges\<close> and \<open>criteria\<close> are optional here because the
  function guards both against \<open>undefined\<close>.
\<close>

record Judge =
  name :: string
  role :: string
  company :: string
  values' :: "string list"
  focusAreas :: "string list"
  redFlags :: "string list"
  recommendedTalkingPoints :: "string list"
  imageUrl :: "string option"

record Strategy =
  structure' :: "(string \<times> string) list"
  keyPhrases :: "string list"
  featuresToEmphasize :: "string list"
  generatedScript :: string

record HackathonData =
  title :: string
  url :: string
  judges :: "Judge list option"
  criteria :: "string list option"
  strategy :: Strategy

text \<open>\<^verbatim>\<open>xs.join(', ')\<close>.\<close>

fun join :: "string list \<Rightarrow> string" where
  "join [] = []"
| "join [x] = x"
| "join (x # y # ys) = x @ '', '' @ join (y # ys)"

text \<open>Lines 150-152 and the criteria expression of line 158.\<close>

definition judgesList :: "HackathonData \<Rightarrow> string" where
  "judgesList hackathonData =
     (case judges hackathonData of
        None \<Rightarrow> ''Standard Hackathon Judges''
      | Some js \<Rightarrow> if length js > 0 then join (map name js) else ''Standard Hackathon Judges'')"

definition criteriaText :: "HackathonData \<Rightarrow> string" where
  "criteriaText hackathonData =
     (case criteria hackathonData of
        None \<Rightarrow> ''General Hackathon Criteria''
      | Some cs \<Rightarrow> if join cs \<noteq> [] then join cs else ''General Hackathon Criteria'')"

text \<open>
  Lines 252-262. \<open>readAsDataURL\<close> is the platform's FileReader: it fails, or loads a data
  URL; \<^verbatim>\<open>split(',')[1]\<close> is the text between the first comma and the next one,
  \<open>undefined\<close> when there is no comma.
\<close>

definition afterComma :: "string \<Rightarrow> string option" where
  "afterComma s =
     (if CHR '','' \<in> set s
      then Some (takeWhile (\<lambda>c. c \<noteq> CHR '','') (tl (dropWhile (\<lambda>c. c \<noteq> CHR '','') s)))
      else None)"

definition blobToBase64 :: "('blob \<Rightarrow> error + string) \<Rightarrow> 'blob \<Rightarrow> error + string option" where
  "blobToBase64 readAsDataURL blob =
     (case readAsDataURL blob of Inl e \<Rightarrow> Inl e | Inr dataUrl \<Rightarrow> Inr (afterComma dataUrl))"

text \<open>The parts of the request of lines 154-213 that vary: the video and the prompt's holes.\<close>

record videoRequest =
  inlineData :: "string option"
  promptTitle :: string
  promptJudges :: string
  promptCriteria :: string

definition videoRequestOf :: "string option \<Rightarrow> HackathonData \<Rightarrow> videoRequest" where
  "videoRequestOf base64Video hackathonData =
     \<lparr>inlineData = base64Video, promptTitle = title hackathonData,
      promptJudges = judgesList hackathonData,
      promptCriteria = criteriaText hackathonData\<rparr>"

text \<open>
  Lines 144-224. A parse failure is the parser's own SyntaxError; the \<^verbatim>\<open>catch\<close> logs
  and rethrows.
\<close>

definition analyzeVideoDemo ::
  "(string \<Rightarrow> jsval option) \<Rightarrow> ('blob \<Rightarrow> error + string) \<Rightarrow> (videoRequest \<Rightarrow> error + response)
     \<Rightarrow> 'blob \<Rightarrow> HackathonData \<Rightarrow> error + jsval" where
  "analyzeVideoDemo JSON_parse readAsDataURL generateContent videoBlob hackathonData =
     (case blobToBase64 readAsDataURL videoBlob of
        Inl e \<Rightarrow> Inl e
      | Inr base64Video \<Rightarrow>
          (case generateContent (videoRequestOf base64Video hackathonData) of
             Inl e \<Rightarrow> Inl e
           | Inr response \<Rightarrow>
               (case resp_text response of
                  None \<Rightarrow> Inl (Error ''Analysis failed'')
                | Some t \<Rightarrow>
                    if t \<noteq> []
                    then (case JSON_parse t of None \<Rightarrow> Inl SyntaxError | Some v \<Rightarrow> Inr v)
                    else Inl (Error ''Analysis failed''))))"

section \<open>getRealTimeFeedback\<close>

text \<open>
  Lines 226-249. The request is fixed by the transcript and the rate. The body of the
  \<^verbatim>\<open>try\<close> is \<open>feedbackBody\<close>; the \<^verbatim>\<open>catch\<close> turns whatever it throws into the
  fixed tip.
\<close>

definition feedbackBody :: "(string \<times> int \<Rightarrow> error + response) \<Rightarrow> string \<Rightarrow> int \<Rightarrow> error + string" where
  "feedbackBody generateContent transcript wpm =
     (case generateContent (transcript, wpm) of
        Inl e \<Rightarrow> Inl e
      | Inr response \<Rightarrow>
          (case resp_text response of
             None \<Rightarrow> Inr ''Keep going!''
           | Some t \<Rightarrow> if t \<noteq> [] then Inr t else Inr ''Keep going!''))"

definition getRealTimeFeedback ::
  "(string \<times> int \<Rightarrow> error + response) \<Rightarrow> string \<Rightarrow> int \<Rightarrow> error + string" where
  "getRealTimeFeedback generateContent transcript wpm =
     (case feedbackBody generateContent transcript wpm of
        Inl e \<Rightarrow> Inr ''Keep going!''
      | Inr tip \<Rightarrow> Inr tip)"

section \<open>SmartMirror: the speech pacer and the recording controls\<close>

text \<open>
  The component's state that the handlers below read or write: the React state
  \<^verbatim>\<open>wpm\<close>, \<^verbatim>\<open>coachFeedback\<close>, \<^verbatim>\<open>isRecording\<close>, \<^verbatim>\<open>recordingTime\<close>, the refs, what
  the speech synthesiser is saying, and the calls of \<^verbatim>\<open>getRealTimeFeedback\<close> whose
  promise has not settled yet, oldest first, each with its two arguments. Times are the
  milliseconds of \<^verbatim>\<open>Date.now()\<close>.
\<close>

record mirror =
  wpm :: int
  coachFeedback :: string
  isRecording :: bool
  recordingTime :: nat
  wordCountRef :: int
  lastTranscriptTimeRef :: int
  chunksRef :: "string list"
  hasStream :: bool
  hasRecorder :: bool
  hasRecognition :: bool
  listening :: bool
  utterance :: "string option"
  inFlight :: "(string \<times> int) list"

text \<open>Lines 18-32, for a component mounted at time \<open>t0\<close>.\<close>

definition initialMirror :: "int \<Rightarrow> mirror" where
  "initialMirror t0 =
     \<lparr>wpm = 0, coachFeedback = ''Ready when you are...'', isRecording = False,
      recordingTime = 0, wordCountRef = 0, lastTranscriptTimeRef = t0, chunksRef = [],
      hasStream = False, hasRecorder = False, hasRecognition = False, listening = False,
      utterance = None, inFlight = []\<rparr>"

text \<open>
  A character is a code unit below 256. Of these, \<^verbatim>\<open>toLowerCase\<close> changes the capital
  letters: A to Z (65 to 90) and the accented capitals 192 to 222 other than the
  multiplication sign 215, each to the code unit 32 above it. The white space of
  \<^verbatim>\<open>trim\<close> and of \<^verbatim>\<open>\s\<close> among the code units below 256 is 9 to 13, 32 and 160.
\<close>

definition isUpper :: "char \<Rightarrow> bool" where
  "isUpper c \<longleftrightarrow>
     (65 \<le> (of_char c :: nat) \<and> (of_char c :: nat) \<le> 90)
     \<or> (192 \<le> (of_char c :: nat) \<and> (of_char c :: nat) \<le> 222 \<and> (of_char c :: nat) \<noteq> 215)"

definition toLowerCase :: "string \<Rightarrow> string" where
  "toLowerCase s = map (\<lambda>c. if isUpper c then char_of ((of_char c :: nat) + 32) else c) s"

definition isSpace :: "char \<Rightarrow> bool" where
  "isSpace c \<longleftrightarrow> (of_char c :: nat) \<in> {9, 10, 11, 12, 13, 32, 160}"

definition trim :: "string \<Rightarrow> string" where
  "trim s = rev (dropWhile isSpace (rev (dropWhile isSpace s)))"

text \<open>
  \<^verbatim>\<open>s.split(/\s+/)\<close>: the pieces between the maximal runs of white space; \<open>cur\<close> is
  the piece being read, reversed. The empty string splits into one empty piece.
\<close>

function splitSpaces :: "string \<Rightarrow> string \<Rightarrow> string list" where
  "splitSpaces cur [] = [rev cur]"
| "splitSpaces cur (c # cs) =
     (if isSpace c then rev cur # splitSpaces [] (dropWhile isSpace cs)
      else splitSpaces (c # cur) cs)"
  by pat_completeness auto
termination
  by (relation "measure (\<lambda>(cur, s). length s)")
     (auto simp: less_Suc_eq_le length_dropWhile_le)

text \<open>Line 131: \<^verbatim>\<open>fullText.trim().split(/\s+/).length\<close>.\<close>

definition wordCount :: "string \<Rightarrow> int" where
  "wordCount fullText = int (length (splitSpaces [] (trim fullText)))"

text \<open>
  The arithmetic of lines 132-135 is that of JavaScript numbers, IEEE binary64. A finite
  double is a rational; \<open>binary64 x\<close> is the double nearest to \<open>x\<close>, the one with the even
  significand when two are equally near: with \<open>2 ^ e \<le> |x| < 2 ^ (e + 1)\<close> it is the nearest
  multiple of \<open>2 ^ (e - 52)\<close>. \<open>ilog2 x\<close> is that \<open>e\<close> for a positive \<open>x\<close>, found from the
  bit lengths of numerator and denominator. The exponent is not bounded here: with word
  counts that are array lengths and times that are those of \<^verbatim>\<open>Date.now()\<close> no difference or
  quotient below comes near the largest or the smallest double.
\<close>

definition ilog2 :: "rat \<Rightarrow> int" where
  "ilog2 x = (let d = bitlen (fst (quotient_of x)) - bitlen (snd (quotient_of x))
              in if 2 powi d \<le> x then d else d - 1)"

definition roundEven :: "rat \<Rightarrow> int" where
  "roundEven q =
     (let f = \<lfloor>q\<rfloor>; r = q - rat_of_int f
      in if r < 1 / 2 then f else if 1 / 2 < r then f + 1 else if even f then f else f + 1)"

definition binary64 :: "rat \<Rightarrow> rat" where
  "binary64 x =
     (if x = 0 then 0
      else (let u = 2 powi (ilog2 \<bar>x\<bar> - 52) in rat_of_int (roundEven (x / u)) * u))"

text \<open>
  \<^verbatim>\<open>a - b\<close> and \<^verbatim>\<open>a / b\<close> on doubles: the exact result, rounded. (No divisor below is
  zero: one is 60000, the other is above 0.08.)
\<close>

definition sub64 :: "rat \<Rightarrow> rat \<Rightarrow> rat" where
  "sub64 a b = binary64 (a - b)"

definition div64 :: "rat \<Rightarrow> rat \<Rightarrow> rat" where
  "div64 a b = binary64 (a / b)"

text \<open>
  \<^verbatim>\<open>Math.round\<close> of a double: the nearest integer, the larger one of two equally near.
\<close>

definition Math_round :: "rat \<Rightarrow> int" where
  "Math_round x = \<lfloor>x + 1 / 2\<rfloor>"

text \<open>\<^verbatim>\<open>s.slice(-100)\<close>: the last 100 characters, all of a shorter string.\<close>

definition sliceLast :: "nat \<Rightarrow> string \<Rightarrow> string" where
  "sliceLast n s = drop (length s - n) s"

text \<open>
  Line 132, \<^verbatim>\<open>(now - lastTranscriptTimeRef.current) / 60000\<close>, and line 135,
  \<^verbatim>\<open>Math.round((words - wordCountRef.current) / minutes)\<close>.
\<close>

definition minutesSince :: "mirror \<Rightarrow> int \<Rightarrow> rat" where
  "minutesSince st now =
     div64 (sub64 (rat_of_int now) (rat_of_int (lastTranscriptTimeRef st))) 60000"

definition rateAt :: "mirror \<Rightarrow> int \<Rightarrow> int \<Rightarrow> int" where
  "rateAt st words now =
     Math_round (div64 (sub64 (rat_of_int words) (rat_of_int (wordCountRef st)))
                       (minutesSince st now))"

text \<open>The literal \<^verbatim>\<open>0.08\<close> of line 134 is the double nearest to 8/100.\<close>

definition minInterval :: rat where
  "minInterval = binary64 (8 / 100)"

text \<open>
  Lines 132-147 of \<^verbatim>\<open>recognition.onresult\<close>: from the text, its word count and the
  clock to the new state. Calling
  \<^verbatim>\<open>getRealTimeFeedback\<close> starts a request and returns at once; its \<^verbatim>\<open>then\<close>
  callback runs later, as \<open>tipSettles\<close>.
\<close>

definition observe :: "string \<Rightarrow> int \<Rightarrow> int \<Rightarrow> mirror \<Rightarrow> mirror" where
  "observe fullText words now st =
     (let minutes = minutesSince st now in
      if minutes > minInterval
      then (let currentWPM = rateAt st words now;
                st' = st\<lparr>wpm := (if currentWPM > 0 then currentWPM else 0),
                         wordCountRef := words,
                         lastTranscriptTimeRef := now\<rparr>
            in if currentWPM > 0
               then st'\<lparr>inFlight := inFlight st' @ [(sliceLast 100 fullText, currentWPM)]\<rparr>
               else st')
      else st)"

text \<open>
  Lines 117-131: the results from \<^verbatim>\<open>event.resultIndex\<close> on, each with its
  \<^verbatim>\<open>isFinal\<close> flag and its transcript; \<open>now\<close> is \<^verbatim>\<open>Date.now()\<close>.
\<close>

definition onresult :: "(bool \<times> string) list \<Rightarrow> int \<Rightarrow> mirror \<Rightarrow> mirror" where
  "onresult results now st =
     (let finalTranscript = concat (map snd (filter fst results));
          interimTranscript = concat (map snd (filter (\<lambda>r. \<not> fst r) results));
          fullText = toLowerCase (finalTranscript @ interimTranscript)
      in observe fullText (wordCount fullText) now st)"

text \<open>
  Lines 142-145 and 97-106: the promise of the \<open>i\<close>-th request in flight settles. On
  fulfilment the tip is shown and spoken, replacing what was being said; a rejected promise
  has no handler.
\<close>

definition dropNth :: "nat \<Rightarrow> 'a list \<Rightarrow> 'a list" where
  "dropNth i xs = take i xs @ drop (Suc i) xs"

definition tipSettles :: "(string \<times> int \<Rightarrow> error + response) \<Rightarrow> nat \<Rightarrow> mirror \<Rightarrow> mirror" where
  "tipSettles generateContent i st =
     (if i < length (inFlight st)
      then (case getRealTimeFeedback generateContent (fst (inFlight st ! i)) (snd (inFlight st ! i)) of
              Inl e \<Rightarrow> st\<lparr>inFlight := dropNth i (inFlight st)\<rparr>
            | Inr fb \<Rightarrow> st\<lparr>coachFeedback := fb, utterance := Some fb,
                           inFlight := dropNth i (inFlight st)\<rparr>)
      else st)"

text \<open>
  Lines 154-174. The recorder's constructor and its \<^verbatim>\<open>start\<close> are taken to succeed.
  \<^verbatim>\<open>recognition.start()\<close> throws on a recogniser that is already listening, which
  ends the handler before \<^verbatim>\<open>setRecordingTime(0)\<close>. What the recorder does when it
  stops (the blob, the change of view) is outside this state.
\<close>

definition startRecording :: "mirror \<Rightarrow> mirror" where
  "startRecording st =
     (if \<not> hasStream st then st
      else (let st' = st\<lparr>chunksRef := [], hasRecorder := True, isRecording := True\<rparr> in
            if hasRecognition st' \<and> listening st' then st'
            else st'\<lparr>listening := hasRecognition st', recordingTime := 0\<rparr>))"

text \<open>Lines 176-183.\<close>

definition stopRecording :: "mirror \<Rightarrow> mirror" where
  "stopRecording st =
     (if hasRecorder st \<and> isRecording st
      then st\<lparr>isRecording := False, listening := False, utterance := None\<rparr>
      else st)"

text \<open>What can happen to the component, one handler at a time, and a run of such events.\<close>

datatype event =
    OnResult "(bool \<times> string) list" int
  | TipSettles nat
  | StartRecording
  | StopRecording

fun step :: "(string \<times> int \<Rightarrow> error + response) \<Rightarrow> mirror \<Rightarrow> event \<Rightarrow> mirror" where
  "step g st (OnResult results now) = onresult results now st"
| "step g st (TipSettles i) = tipSettles g i st"
| "step g st StartRecording = startRecording st"
| "step g st StopRecording = stopRecording st"

definition run :: "(string \<times> int \<Rightarrow> error + response) \<Rightarrow> mirror \<Rightarrow> event list \<Rightarrow> mirror" where
  "run g st evs = foldl (step g) st evs"

text \<open>
  A coach for the concrete runs below: its tip repeats the transcript it was sent, so the
  tips of two requests can be told apart.
\<close>

definition echoCoach :: "string \<times> int \<Rightarrow> error + response" where
  "echoCoach request = Inr \<lparr>resp_text = Some (''Heard: '' @ fst request)\<rparr>"

section \<open>A complete reply\<close>

text \<open>A reply with every property in place, and its text, for the concrete runs below.\<close>

definition completeReplyText :: string where
  "completeReplyText = ''{\"title\":\"Hack\",\"url\":\"https://lu.ma/demo\",\"criteria\":[\"Impact\"],\"judges\":[{\"name\":\"Ada\"}],\"strategy\":{\"structure\":[],\"keyPhrases\":[],\"generatedScript\":\"Hi\"}}''"

definition completeReply :: jsval where
  "completeReply = JObj
     [(''title'', JStr ''Hack''),
      (''url'', JStr ''https://lu.ma/demo''),
      (''criteria'', JArr [JStr ''Impact''] []),
      (''judges'', JArr [JObj [(''name'', JStr ''Ada'')]] []),
      (''strategy'', JObj [(''structure'', JArr [] []),
                           (''keyPhrases'', JArr [] []),
                           (''generatedScript'', JStr ''Hi'')])]"

text \<open>The same reply with an empty script: every property is present.\<close>

definition emptyScriptText :: string where
  "emptyScriptText = ''{\"title\":\"Hack\",\"url\":\"https://lu.ma/demo\",\"criteria\":[\"Impact\"],\"judges\":[{\"name\":\"Ada\"}],\"strategy\":{\"structure\":[],\"keyPhrases\":[],\"generatedScript\":\"\"}}''"

definition emptyScriptReply :: jsval where
  "emptyScriptReply = JObj
     [(''title'', JStr ''Hack''),
      (''url'', JStr ''https://lu.ma/demo''),
      (''criteria'', JArr [JStr ''Impact''] []),
      (''judges'', JArr [JObj [(''name'', JStr ''Ada'')]] []),
      (''strategy'', JObj [(''structure'', JArr [] []),
                           (''keyPhrases'', JArr [] []),
                           (''generatedScript'', JStr [])])]"

text \<open>A critique with a score above 100, its text, and a record to analyse a video for.\<close>

definition critiqueText :: string where
  "critiqueText = ''{\"overallScore\":150,\"strengths\":[],\"improvements\":[],\"judgeSpecificFeedback\":[],\"qaQuestions\":[]}''"

definition critique :: jsval where
  "critique = JObj
     [(''overallScore'', JNum 150),
      (''strengths'', JArr [] []),
      (''improvements'', JArr [] []),
      (''judgeSpecificFeedback'', JArr [] []),
      (''qaQuestions'', JArr [] [])]"

definition demoData :: HackathonData where
  "demoData =
     \<lparr>title = ''Hack'', url = ''https://lu.ma/demo'',
      judges = Some [\<lparr>name = ''Ada'', role = ''Engineer'', company = ''Analytical'',
                      values' = [], focusAreas = [], redFlags = [],
                      recommendedTalkingPoints = [], imageUrl = None\<rparr>],
      criteria = Some [''Impact''],
      strategy = \<lparr>structure' = [], keyPhrases = [], featuresToEmphasize = [],
                  generatedScript = ''Hi''\<rparr>\<rparr>"

section \<open>What the sanitation pass leaves behind\<close>

lemma getProp_setProp:
  "setProp d k v = Inr d' \<Longrightarrow> getProp d' k' = (if k' = k then Inr (Some v) else getProp d k')"
  by (cases d) (auto simp: update_conv')

lemma noJudges_iff:
  "noJudges j \<longleftrightarrow> j = None \<or> \<not> isArray j \<or> elements j = []"
  by (cases j rule: truthy.cases) (auto simp: noJudges_def)

lemma sanitizeJudges_result:
  assumes "sanitizeJudges data = Inr d"
  shows "\<exists>j. getProp data ''judges'' = Inr j
           \<and> getProp d ''judges'' = Inr (if noJudges j then Some fallbackJudges else j)
           \<and> (\<forall>k. k \<noteq> ''judges'' \<longrightarrow> getProp d k = getProp data k)"
  using assms
  by (auto simp: sanitizeJudges_def getProp_setProp split: sum.splits if_splits)

lemma sanitizeStrategy_result:
  assumes "sanitizeStrategy data = Inr d"
  shows "\<exists>s. getProp data ''strategy'' = Inr s
           \<and> getProp d ''strategy'' = Inr (if truthy s then s else Some defaultStrategy)
           \<and> (\<forall>k. k \<noteq> ''strategy'' \<longrightarrow> getProp d k = getProp data k)"
  using assms
  by (auto simp: sanitizeStrategy_def getProp_setProp split: sum.splits if_splits)

lemma ensureStrategyProp_result:
  assumes "ensureStrategyProp k v data = Inr d"
  shows "\<exists>s s' x. getProp data ''strategy'' = Inr (Some s) \<and> getProp s k = Inr x
           \<and> getProp d ''strategy'' = Inr (Some s')
           \<and> (\<forall>k'. getProp s' k' = (if k' = k \<and> \<not> truthy x then Inr (Some v) else getProp s k'))
           \<and> (\<forall>k'. k' \<noteq> ''strategy'' \<longrightarrow> getProp d k' = getProp data k')
           \<and> (truthy x \<longrightarrow> s' = s)"
  using assms
  by (auto simp: ensureStrategyProp_def getProp_setProp split: sum.splits if_splits option.splits)

lemma sanitize_steps:
  assumes "sanitize data = Inr d"
  obtains d1 d2 d3 d4 where "sanitizeJudges data = Inr d1" "sanitizeStrategy d1 = Inr d2"
    "ensureStrategyProp ''generatedScript'' (JStr ''Script generation incomplete.'') d2 = Inr d3"
    "ensureStrategyProp ''structure'' (JArr [] []) d3 = Inr d4"
    "ensureStrategyProp ''keyPhrases'' (JArr [] []) d4 = Inr d"
  using assms by (auto simp: sanitize_def andThen_def split: sum.splits)

lemma analyze_returns:
  assumes "analyzeHackathonUrl P G u = Inr d"
  obtains r t data where "G u = Inr r" "resp_text r = Some t" "t \<noteq> []" "P t = Some data"
    "sanitize data = Inr d"
  using assms by (auto simp: analyzeHackathonUrl_def split: sum.splits option.splits if_splits)


lemma sanitize_result:
  assumes "sanitize data = Inr d"
  obtains j s s0 sf g st kp where
      "getProp data ''judges'' = Inr j" and "getProp data ''strategy'' = Inr s"
    and "getProp d ''judges'' = Inr (if noJudges j then Some fallbackJudges else j)"
    and "\<forall>k. k \<noteq> ''judges'' \<longrightarrow> k \<noteq> ''strategy'' \<longrightarrow> getProp d k = getProp data k"
    and "(if truthy s then s else Some defaultStrategy) = Some s0"
    and "getProp d ''strategy'' = Inr (Some sf)"
    and "getProp s0 ''generatedScript'' = Inr g"
    and "getProp s0 ''structure'' = Inr st"
    and "getProp s0 ''keyPhrases'' = Inr kp"
    and "getProp sf ''generatedScript''
           = Inr (if truthy g then g else Some (JStr ''Script generation incomplete.''))"
    and "getProp sf ''structure'' = Inr (if truthy st then st else Some (JArr [] []))"
    and "getProp sf ''keyPhrases'' = Inr (if truthy kp then kp else Some (JArr [] []))"
    and "\<forall>k. k \<noteq> ''generatedScript'' \<longrightarrow> k \<noteq> ''structure'' \<longrightarrow> k \<noteq> ''keyPhrases''
           \<longrightarrow> getProp sf k = getProp s0 k"
    and "truthy g \<and> truthy st \<and> truthy kp \<longrightarrow> sf = s0"
proof -
  from assms obtain d1 d2 d3 d4 where
    s1: "sanitizeJudges data = Inr d1" and s2: "sanitizeStrategy d1 = Inr d2" and
    s3: "ensureStrategyProp ''generatedScript'' (JStr ''Script generation incomplete.'') d2 = Inr d3" and
    s4: "ensureStrategyProp ''structure'' (JArr [] []) d3 = Inr d4" and
    s5: "ensureStrategyProp ''keyPhrases'' (JArr [] []) d4 = Inr d"
    by (rule sanitize_steps)
  from sanitizeJudges_result [OF s1] obtain j where
    j: "getProp data ''judges'' = Inr j"
       "getProp d1 ''judges'' = Inr (if noJudges j then Some fallbackJudges else j)"
       "\<And>k. k \<noteq> ''judges'' \<Longrightarrow> getProp d1 k = getProp data k"
    by blast
  from sanitizeStrategy_result [OF s2] obtain s where
    s: "getProp d1 ''strategy'' = Inr s"
       "getProp d2 ''strategy'' = Inr (if truthy s then s else Some defaultStrategy)"
       "\<And>k. k \<noteq> ''strategy'' \<Longrightarrow> getProp d2 k = getProp d1 k"
    by blast
  from ensureStrategyProp_result [OF s3] obtain a0 a1 g where
    a: "getProp d2 ''strategy'' = Inr (Some a0)" "getProp a0 ''generatedScript'' = Inr g"
       "getProp d3 ''strategy'' = Inr (Some a1)"
       "\<And>k. getProp a1 k = (if k = ''generatedScript'' \<and> \<not> truthy g
                              then Inr (Some (JStr ''Script generation incomplete.''))
                              else getProp a0 k)"
       "\<And>k. k \<noteq> ''strategy'' \<Longrightarrow> getProp d3 k = getProp d2 k"
       "truthy g \<Longrightarrow> a1 = a0"
    by blast
  from ensureStrategyProp_result [OF s4] obtain b0 b1 st where
    b: "getProp d3 ''strategy'' = Inr (Some b0)" "getProp b0 ''structure'' = Inr st"
       "getProp d4 ''strategy'' = Inr (Some b1)"
       "\<And>k. getProp b1 k = (if k = ''structure'' \<and> \<not> truthy st
                              then Inr (Some (JArr [] [])) else getProp b0 k)"
       "\<And>k. k \<noteq> ''strategy'' \<Longrightarrow> getProp d4 k = getProp d3 k"
       "truthy st \<Longrightarrow> b1 = b0"
    by blast
  from ensureStrategyProp_result [OF s5] obtain c0 c1 kp where
    c: "getProp d4 ''strategy'' = Inr (Some c0)" "getProp c0 ''keyPhrases'' = Inr kp"
       "getProp d ''strategy'' = Inr (Some c1)"
       "\<And>k. getProp c1 k = (if k = ''keyPhrases'' \<and> \<not> truthy kp
                              then Inr (Some (JArr [] [])) else getProp c0 k)"
       "\<And>k. k \<noteq> ''strategy'' \<Longrightarrow> getProp d k = getProp d4 k"
       "truthy kp \<Longrightarrow> c1 = c0"
    by blast
  have e1: "b0 = a1" using a(3) b(1) by simp
  have e2: "c0 = b1" using b(3) c(1) by simp
  have ds: "getProp data ''strategy'' = Inr s" using j(3) [of "''strategy''"] s(1) by simp
  have dj: "getProp d ''judges'' = Inr (if noJudges j then Some fallbackJudges else j)"
    using c(5) [of "''judges''"] b(5) [of "''judges''"] a(5) [of "''judges''"]
      s(3) [of "''judges''"] j(2) by simp
  have fr: "\<forall>k. k \<noteq> ''judges'' \<longrightarrow> k \<noteq> ''strategy'' \<longrightarrow> getProp d k = getProp data k"
    using c(5) b(5) a(5) s(3) j(3) by simp
  have s0: "(if truthy s then s else Some defaultStrategy) = Some a0" using s(2) a(1) by simp
  have st0: "getProp a0 ''structure'' = Inr st" using b(2) a(4) [of "''structure''"] e1 by simp
  have kp0: "getProp a0 ''keyPhrases'' = Inr kp"
    using c(2) b(4) [of "''keyPhrases''"] a(4) [of "''keyPhrases''"] e1 e2 by simp
  have g1: "getProp c1 ''generatedScript''
              = Inr (if truthy g then g else Some (JStr ''Script generation incomplete.''))"
    using c(4) [of "''generatedScript''"] b(4) [of "''generatedScript''"]
      a(4) [of "''generatedScript''"] a(2) e1 e2 by simp
  have st1: "getProp c1 ''structure'' = Inr (if truthy st then st else Some (JArr [] []))"
    using c(4) [of "''structure''"] b(4) [of "''structure''"] b(2) e2 by simp
  have kp1: "getProp c1 ''keyPhrases'' = Inr (if truthy kp then kp else Some (JArr [] []))"
    using c(4) [of "''keyPhrases''"] c(2) by simp
  have oth: "\<forall>k. k \<noteq> ''generatedScript'' \<longrightarrow> k \<noteq> ''structure'' \<longrightarrow> k \<noteq> ''keyPhrases''
               \<longrightarrow> getProp c1 k = getProp a0 k"
    using c(4) b(4) a(4) e1 e2 by simp
  have same: "truthy g \<and> truthy st \<and> truthy kp \<longrightarrow> c1 = a0"
    using a(6) b(6) c(6) e1 e2 by simp
  show ?thesis
    by (rule that [OF j(1) ds dj fr s0 c(3) a(2) st0 kp0 g1 st1 kp1 oth same])
qed

lemma fallback_lists:
  "\<forall>jd \<in> set (elements (Some fallbackJudges)). \<forall>k \<in> set judgeLists. isArray (readProp jd k)"
  by (simp add: fallbackJudges_def technicalJudge_def productJudge_def judgeLists_def readProp_def)


lemma returned_sanitized:
  assumes "generateContent u = Inr response" and "resp_text response = Some t"
    and "JSON_parse t = Some data"
    and "analyzeHackathonUrl JSON_parse generateContent u = Inr d"
  shows "sanitize data = Inr d"
proof -
  from assms(4) obtain r t' data' where
    "generateContent u = Inr r" "resp_text r = Some t'" "JSON_parse t' = Some data'"
    "sanitize data' = Inr d"
    by (rule analyze_returns)
  with assms(1-3) show ?thesis by simp
qed

lemma falsy_no_props: "\<not> truthy (Some v) \<Longrightarrow> readProp v k = None"
  by (cases v) (simp_all add: readProp_def)

lemma readPath2: "readPath d [k, k'] = (case readProp d k of None \<Rightarrow> None | Some v \<Rightarrow> readProp v k')"
  by (simp split: option.splits)

text \<open>The summary of the pass in terms of what a reader of the two values sees.\<close>

lemma sanitized_judges:
  assumes "sanitize data = Inr d"
  shows "readProp d ''judges''
           = (if noJudges (readProp data ''judges'') then Some fallbackJudges
              else readProp data ''judges'')"
  using assms by (elim sanitize_result) (simp add: readProp_def)

lemma sanitized_frame:
  assumes "sanitize data = Inr d" and "k \<noteq> ''judges''" and "k \<noteq> ''strategy''"
  shows "readProp d k = readProp data k"
  using assms by (elim sanitize_result) (simp add: readProp_def)

lemma sanitized_strategy_absent:
  assumes "sanitize data = Inr d" and "\<not> truthy (readProp data ''strategy'')"
  shows "readPath d [''strategy'', k] = readProp defaultStrategy k"
    and "readPath data [''strategy'', k] = None"
proof -
  from assms(1) obtain j s s0 sf g st kp where
    j: "getProp data ''judges'' = Inr j" and
    f: "getProp data ''strategy'' = Inr s"
      "(if truthy s then s else Some defaultStrategy) = Some s0"
      "getProp d ''strategy'' = Inr (Some sf)"
      "getProp s0 ''generatedScript'' = Inr g"
      "getProp s0 ''structure'' = Inr st"
      "getProp s0 ''keyPhrases'' = Inr kp"
      "getProp sf ''generatedScript''
           = Inr (if truthy g then g else Some (JStr ''Script generation incomplete.''))"
      "getProp sf ''structure'' = Inr (if truthy st then st else Some (JArr [] []))"
      "getProp sf ''keyPhrases'' = Inr (if truthy kp then kp else Some (JArr [] []))"
      "\<forall>k. k \<noteq> ''generatedScript'' \<longrightarrow> k \<noteq> ''structure'' \<longrightarrow> k \<noteq> ''keyPhrases''
           \<longrightarrow> getProp sf k = getProp s0 k"
    by (rule sanitize_result)
  have s: "readProp data ''strategy'' = s" using f(1) by (simp add: readProp_def)
  with assms(2) f(2) have s0: "s0 = defaultStrategy" by simp
  have g: "truthy g" "truthy st" "truthy kp"
    using f(4,5,6) unfolding s0 defaultStrategy_def by auto
  consider "k = ''generatedScript''" | "k = ''structure''" | "k = ''keyPhrases''"
    | "k \<noteq> ''generatedScript''" "k \<noteq> ''structure''" "k \<noteq> ''keyPhrases''"
    by blast
  then have "getProp sf k = getProp s0 k"
  proof cases
    case 1 then show ?thesis using f(4,7) g(1) by simp
  next
    case 2 then show ?thesis using f(5,8) g(2) by simp
  next
    case 3 then show ?thesis using f(6,9) g(3) by simp
  next
    case 4 then show ?thesis using f(10) by simp
  qed
  then show "readPath d [''strategy'', k] = readProp defaultStrategy k"
    using f(3) s0 by (simp add: readProp_def readPath2 del: readPath.simps)
  show "readPath data [''strategy'', k] = None"
  proof (cases s)
    case None
    then show ?thesis using s by (simp add: readPath2 del: readPath.simps)
  next
    case (Some v)
    then have "readProp v k = None" using assms(2) s by (simp add: falsy_no_props)
    then show ?thesis using s Some by (simp add: readPath2 del: readPath.simps)
  qed
qed

lemma sanitized_strategy_present:
  assumes "sanitize data = Inr d" and "truthy (readProp data ''strategy'')"
  shows "readPath d [''strategy'', k]
           = (if k = ''generatedScript'' \<and> \<not> truthy (readPath data [''strategy'', k])
              then Some (JStr ''Script generation incomplete.'')
              else if (k = ''structure'' \<or> k = ''keyPhrases'')
                      \<and> \<not> truthy (readPath data [''strategy'', k])
              then Some (JArr [] [])
              else readPath data [''strategy'', k])"
proof -
  from assms(1) obtain j s s0 sf g st kp where
    j: "getProp data ''judges'' = Inr j" and
    f: "getProp data ''strategy'' = Inr s"
      "(if truthy s then s else Some defaultStrategy) = Some s0"
      "getProp d ''strategy'' = Inr (Some sf)"
      "getProp s0 ''generatedScript'' = Inr g"
      "getProp s0 ''structure'' = Inr st"
      "getProp s0 ''keyPhrases'' = Inr kp"
      "getProp sf ''generatedScript''
           = Inr (if truthy g then g else Some (JStr ''Script generation incomplete.''))"
      "getProp sf ''structure'' = Inr (if truthy st then st else Some (JArr [] []))"
      "getProp sf ''keyPhrases'' = Inr (if truthy kp then kp else Some (JArr [] []))"
      "\<forall>k. k \<noteq> ''generatedScript'' \<longrightarrow> k \<noteq> ''structure'' \<longrightarrow> k \<noteq> ''keyPhrases''
           \<longrightarrow> getProp sf k = getProp s0 k"
    by (rule sanitize_result)
  have s: "readProp data ''strategy'' = s" using f(1) by (simp add: readProp_def)
  with assms(2) f(2) have s0: "s = Some s0" by simp
  have p: "readPath data [''strategy'', k] = readProp s0 k"
    using s s0 by (simp add: readPath2 del: readPath.simps)
  have q: "readPath d [''strategy'', k] = readProp sf k"
    using f(3) by (simp add: readProp_def readPath2 del: readPath.simps)
  consider "k = ''generatedScript''" | "k = ''structure''" | "k = ''keyPhrases''"
    | "k \<noteq> ''generatedScript''" "k \<noteq> ''structure''" "k \<noteq> ''keyPhrases''"
    by blast
  then show ?thesis
  proof cases
    case 1 then show ?thesis using f(4,7) unfolding p q by (simp add: readProp_def)
  next
    case 2 then show ?thesis using f(5,8) unfolding p q by (simp add: readProp_def)
  next
    case 3 then show ?thesis using f(6,9) unfolding p q by (simp add: readProp_def)
  next
    case 4 then show ?thesis using f(10) unfolding p q by (simp add: readProp_def)
  qed
qed

lemma sanitized_strategy_same:
  assumes "sanitize data = Inr d" and "truthy (readProp data ''strategy'')"
    and "truthy (readPath data [''strategy'', ''generatedScript''])"
    and "truthy (readPath data [''strategy'', ''structure''])"
    and "truthy (readPath data [''strategy'', ''keyPhrases''])"
  shows "readProp d ''strategy'' = readProp data ''strategy''"
proof -
  from assms(1) obtain j s s0 sf g st kp where
    j: "getProp data ''judges'' = Inr j" and
    f: "getProp data ''strategy'' = Inr s"
      "(if truthy s then s else Some defaultStrategy) = Some s0"
      "getProp d ''strategy'' = Inr (Some sf)"
      "getProp s0 ''generatedScript'' = Inr g"
      "getProp s0 ''structure'' = Inr st"
      "getProp s0 ''keyPhrases'' = Inr kp"
      "truthy g \<and> truthy st \<and> truthy kp \<longrightarrow> sf = s0"
    by (rule sanitize_result)
  have s: "readProp data ''strategy'' = s" using f(1) by (simp add: readProp_def)
  with assms(2) f(2) have s0: "s = Some s0" by simp
  have p: "readPath data [''strategy'', k] = readProp s0 k" for k
    using s s0 by (simp add: readPath2 del: readPath.simps)
  have "truthy g" "truthy st" "truthy kp"
    using assms(3-5) f(4-6) unfolding p by (simp_all add: readProp_def)
  with f(7) have "sf = s0" by simp
  then show ?thesis using f(3) s s0 by (simp add: readProp_def)
qed

section \<open>Concrete runs of analyzeHackathonUrl\<close>

text \<open>
  Each run fixes the text of the reply and the value the parser gives for it. An object
  that gains a property keeps its own properties in their order and takes the new one last.
\<close>

lemma replies_run: "(replies t :: 'a \<Rightarrow> error + response) u = Inr \<lparr>resp_text = Some t\<rparr>"
  by (simp add: replies_def)

lemma resp_text_run: "resp_text \<lparr>resp_text = Some t\<rparr> = Some t"
  by simp

lemma table_run: "map_of [(t, v)] t = Some v"
  by simp


lemma run_empty_judges:
  "analyzeHackathonUrl (map_of [(''{\"judges\":[]}'', JObj [(''judges'', JArr [] [])])])
      (replies ''{\"judges\":[]}'') ''https://lu.ma/demo''
     = Inr (JObj [(''judges'', fallbackJudges), (''strategy'', defaultStrategy)])"
  by (simp add: analyzeHackathonUrl_def replies_def sanitize_def andThen_def sanitizeJudges_def
        sanitizeStrategy_def ensureStrategyProp_def noJudges_def defaultStrategy_def)

lemma run_empty_script:
  "analyzeHackathonUrl
      (map_of [(''{\"strategy\":{\"generatedScript\":\"\"}}'',
                JObj [(''strategy'', JObj [(''generatedScript'', JStr [])])])])
      (replies ''{\"strategy\":{\"generatedScript\":\"\"}}'') ''https://lu.ma/demo''
     = Inr (JObj [(''strategy'', JObj [(''generatedScript'', JStr ''Script generation incomplete.''),
                                       (''structure'', JArr [] []),
                                       (''keyPhrases'', JArr [] [])]),
                  (''judges'', fallbackJudges)])"
  by (simp add: analyzeHackathonUrl_def replies_def sanitize_def andThen_def sanitizeJudges_def
        sanitizeStrategy_def ensureStrategyProp_def noJudges_def)

lemma run_ada:
  "analyzeHackathonUrl
      (map_of [(''{\"judges\":[{\"name\":\"Ada\"}]}'',
                JObj [(''judges'', JArr [JObj [(''name'', JStr ''Ada'')]] [])])])
      (replies ''{\"judges\":[{\"name\":\"Ada\"}]}'') ''https://lu.ma/demo''
     = Inr (JObj [(''judges'', JArr [JObj [(''name'', JStr ''Ada'')]] []),
                  (''strategy'', defaultStrategy)])"
  by (simp add: analyzeHackathonUrl_def replies_def sanitize_def andThen_def sanitizeJudges_def
        sanitizeStrategy_def ensureStrategyProp_def noJudges_def defaultStrategy_def)

lemma run_full:
  "analyzeHackathonUrl (map_of [(completeReplyText, completeReply)]) (replies completeReplyText) ''https://lu.ma/demo''
     = Inr completeReply"
proof -
  have "completeReplyText \<noteq> []" by (simp add: completeReplyText_def)
  moreover have "sanitize completeReply = Inr completeReply"
    by (simp add: completeReply_def sanitize_def andThen_def sanitizeJudges_def
        sanitizeStrategy_def ensureStrategyProp_def noJudges_def)
  ultimately show ?thesis
    by (simp add: analyzeHackathonUrl_def replies_def)
qed

lemma run_empty_script_complete:
  "analyzeHackathonUrl (map_of [(emptyScriptText, emptyScriptReply)]) (replies emptyScriptText)
      ''https://lu.ma/demo''
     = Inr (JObj
         [(''title'', JStr ''Hack''),
          (''url'', JStr ''https://lu.ma/demo''),
          (''criteria'', JArr [JStr ''Impact''] []),
          (''judges'', JArr [JObj [(''name'', JStr ''Ada'')]] []),
          (''strategy'', JObj [(''structure'', JArr [] []),
                               (''keyPhrases'', JArr [] []),
                               (''generatedScript'', JStr ''Script generation incomplete.'')])])"
proof -
  have "emptyScriptText \<noteq> []" by (simp add: emptyScriptText_def)
  moreover have "sanitize emptyScriptReply = Inr (JObj
         [(''title'', JStr ''Hack''),
          (''url'', JStr ''https://lu.ma/demo''),
          (''criteria'', JArr [JStr ''Impact''] []),
          (''judges'', JArr [JObj [(''name'', JStr ''Ada'')]] []),
          (''strategy'', JObj [(''structure'', JArr [] []),
                               (''keyPhrases'', JArr [] []),
                               (''generatedScript'', JStr ''Script generation incomplete.'')])])"
    by (simp add: emptyScriptReply_def sanitize_def andThen_def sanitizeJudges_def
        sanitizeStrategy_def ensureStrategyProp_def noJudges_def)
  ultimately show ?thesis
    by (simp add: analyzeHackathonUrl_def replies_def)
qed

section \<open>The judges of the returned record\<close>



text \<open>
  C2 asks for exactly three judges when the reply has none. The reply \<^verbatim>\<open>{}\<close> has no
  judges, the function returns, and the returned panel has two entries, not three.
\<close>

theorem three_archetypes_counterexample:
  "getProp (JObj []) ''judges'' = Inr None
   \<and> analyzeHackathonUrl (map_of [(''{}'', JObj [])]) (replies ''{}'') ''https://lu.ma/demo''
       = Inr (JObj [(''judges'', fallbackJudges), (''strategy'', defaultStrategy)])
   \<and> length (elements (readProp
         (JObj [(''judges'', fallbackJudges), (''strategy'', defaultStrategy)]) ''judges'')) = 2
   \<and> length (elements (readProp
         (JObj [(''judges'', fallbackJudges), (''strategy'', defaultStrategy)]) ''judges'')) \<noteq> 3"
  by (simp add: analyzeHackathonUrl_def replies_def sanitize_def andThen_def sanitizeJudges_def
        sanitizeStrategy_def ensureStrategyProp_def noJudges_def defaultStrategy_def
        readProp_def fallbackJudges_def)

text \<open>
  C2, amended. Whenever the parsed reply has no judges and \<open>analyzeHackathonUrl\<close> returns,
  the returned judges are exactly the two built-in ones, the technical judge and the product
  judge. (Three archetype judges are what the prompt asks the model for.)
\<close>

theorem two_fallback_judges:
  assumes "generateContent u = Inr response" and "resp_text response = Some t"
    and "JSON_parse t = Some data"
    and "readProp data ''judges'' = None \<or> \<not> isArray (readProp data ''judges'')
            \<or> elements (readProp data ''judges'') = []"
    and "analyzeHackathonUrl JSON_parse generateContent u = Inr d"
  shows "readProp d ''judges'' = Some (JArr [technicalJudge, productJudge] [])
       \<and> length (elements (readProp d ''judges'')) = 2"
proof -
  have "noJudges (readProp data ''judges'')" using assms(4) by (simp add: noJudges_iff)
  moreover have "sanitize data = Inr d" using assms(1-3,5) by (rule returned_sanitized)
  ultimately show ?thesis
    by (simp add: sanitized_judges fallbackJudges_def)
qed

theorem two_fallback_judges_witness:
  "elements (readProp (JObj [(''judges'', JArr [] [])]) ''judges'') = []
   \<and> analyzeHackathonUrl (map_of [(''{\"judges\":[]}'', JObj [(''judges'', JArr [] [])])])
        (replies ''{\"judges\":[]}'') ''https://lu.ma/demo''
       = Inr (JObj [(''judges'', fallbackJudges), (''strategy'', defaultStrategy)])
   \<and> length (elements (readProp (JObj [(''judges'', fallbackJudges), (''strategy'', defaultStrategy)])
        ''judges'')) = 2"
proof -
  have p: "map_of [(''{\"judges\":[]}'', JObj [(''judges'', JArr [] [])])] ''{\"judges\":[]}''
             = Some (JObj [(''judges'', JArr [] [])])"
    by simp
  have r: "(replies ''{\"judges\":[]}'' :: string \<Rightarrow> error + response) ''https://lu.ma/demo''
             = Inr \<lparr>resp_text = Some ''{\"judges\":[]}''\<rparr>"
    by (simp add: replies_def)
  have t: "resp_text \<lparr>resp_text = Some ''{\"judges\":[]}''\<rparr> = Some ''{\"judges\":[]}''"
    by simp
  have e: "elements (readProp (JObj [(''judges'', JArr [] [])]) ''judges'') = []"
    by (simp add: readProp_def)
  then have h: "readProp (JObj [(''judges'', JArr [] [])]) ''judges'' = None
      \<or> \<not> isArray (readProp (JObj [(''judges'', JArr [] [])]) ''judges'')
      \<or> elements (readProp (JObj [(''judges'', JArr [] [])]) ''judges'') = []"
    by blast
  show ?thesis
    using two_fallback_judges [OF r t p h run_empty_judges] e run_empty_judges by simp
qed

section \<open>The strategy of the returned record\<close>

text \<open>
  C5 says the returned \<^verbatim>\<open>strategy.generatedScript\<close> is a non-empty string on every
  return. The test of line 131 is truthiness: a reply whose script is the number 42 is
  returned with that number.
\<close>

theorem generatedScript_string_counterexample:
  "analyzeHackathonUrl
      (map_of [(''{\"strategy\":{\"generatedScript\":42}}'',
                JObj [(''strategy'', JObj [(''generatedScript'', JNum 42)])])])
      (replies ''{\"strategy\":{\"generatedScript\":42}}'') ''https://lu.ma/demo''
     = Inr (JObj [(''strategy'', JObj [(''generatedScript'', JNum 42),
                                       (''structure'', JArr [] []),
                                       (''keyPhrases'', JArr [] [])]),
                  (''judges'', fallbackJudges)])
   \<and> readPath (JObj [(''strategy'', JObj [(''generatedScript'', JNum 42),
                                       (''structure'', JArr [] []),
                                       (''keyPhrases'', JArr [] [])]),
                  (''judges'', fallbackJudges)]) [''strategy'', ''generatedScript'']
       = Some (JNum 42)
   \<and> \<not> nonEmptyString (Some (JNum 42))"
  by (simp add: analyzeHackathonUrl_def replies_def sanitize_def andThen_def sanitizeJudges_def
        sanitizeStrategy_def ensureStrategyProp_def noJudges_def readProp_def)

text \<open>
  C5, amended. On every return the returned \<^verbatim>\<open>strategy.generatedScript\<close> is truthy
  (never absent, \<open>null\<close> or empty). A truthy parsed script is returned as parsed. In every
  other case a placeholder is put in its place: \<^verbatim>\<open>Script generation incomplete.\<close> when
  the reply had a strategy, \<^verbatim>\<open>Could not generate script. Please try analyzing again.\<close>
  when it had none. So if the parsed script, where there is one, is a string, the returned
  script is a non-empty string.
\<close>

theorem generatedScript_truthy:
  assumes "generateContent u = Inr response" and "resp_text response = Some t"
    and "JSON_parse t = Some data"
    and "analyzeHackathonUrl JSON_parse generateContent u = Inr d"
  shows "truthy (readPath d [''strategy'', ''generatedScript''])
       \<and> (truthy (readPath data [''strategy'', ''generatedScript'']) \<longrightarrow>
            readPath d [''strategy'', ''generatedScript'']
              = readPath data [''strategy'', ''generatedScript''])
       \<and> (\<not> truthy (readPath data [''strategy'', ''generatedScript'']) \<longrightarrow>
            readPath d [''strategy'', ''generatedScript'']
              = Some (JStr (if truthy (readProp data ''strategy'')
                            then ''Script generation incomplete.''
                            else ''Could not generate script. Please try analyzing again.'')))
       \<and> ((\<forall>x. readPath data [''strategy'', ''generatedScript''] = Some x \<longrightarrow> (\<exists>s. x = JStr s)) \<longrightarrow>
            nonEmptyString (readPath d [''strategy'', ''generatedScript'']))"
proof -
  let ?p = "readPath data [''strategy'', ''generatedScript'']"
  let ?r = "readPath d [''strategy'', ''generatedScript'']"
  have s: "sanitize data = Inr d" using assms by (rule returned_sanitized)
  have main: "?r = (if truthy ?p then ?p
                    else Some (JStr (if truthy (readProp data ''strategy'')
                            then ''Script generation incomplete.''
                            else ''Could not generate script. Please try analyzing again.'')))"
  proof (cases "truthy (readProp data ''strategy'')")
    case True
    show ?thesis
      using sanitized_strategy_present [OF s True, of "''generatedScript''"] True by simp
  next
    case False
    note a = sanitized_strategy_absent [OF s False, of "''generatedScript''"]
    have "?r = Some (JStr ''Could not generate script. Please try analyzing again.'')"
      unfolding a(1) by (simp add: defaultStrategy_def readProp_def)
    then show ?thesis using False unfolding a(2) by simp
  qed
  have c2: "truthy ?p \<longrightarrow> ?r = ?p" using main by simp
  have c3: "\<not> truthy ?p \<longrightarrow> ?r = Some (JStr (if truthy (readProp data ''strategy'')
                            then ''Script generation incomplete.''
                            else ''Could not generate script. Please try analyzing again.''))"
    using main by simp
  have c1: "truthy ?r"
  proof (cases "truthy ?p")
    case True then show ?thesis using c2 by simp
  next
    case False
    then have "?r = Some (JStr (if truthy (readProp data ''strategy'')
                            then ''Script generation incomplete.''
                            else ''Could not generate script. Please try analyzing again.''))"
      using c3 by blast
    then show ?thesis by simp
  qed
  have c4: "(\<forall>x. ?p = Some x \<longrightarrow> (\<exists>s. x = JStr s)) \<longrightarrow> nonEmptyString ?r"
  proof
    assume h: "\<forall>x. ?p = Some x \<longrightarrow> (\<exists>s. x = JStr s)"
    show "nonEmptyString ?r"
    proof (cases "truthy ?p")
      case True
      then obtain x where x: "?p = Some x" by (cases ?p) simp_all
      with h obtain str where "x = JStr str" by blast
      with x True have "nonEmptyString ?p" by simp
      then show ?thesis using c2 True by simp
    next
      case False
      then have "?r = Some (JStr (if truthy (readProp data ''strategy'')
                            then ''Script generation incomplete.''
                            else ''Could not generate script. Please try analyzing again.''))"
        using c3 by blast
      then show ?thesis by simp
    qed
  qed
  show ?thesis using c1 c2 c3 c4 by blast
qed

theorem generatedScript_truthy_witness:
  "readPath (JObj [(''strategy'', JObj [(''generatedScript'', JStr [])])])
       [''strategy'', ''generatedScript''] = Some (JStr [])
   \<and> analyzeHackathonUrl
      (map_of [(''{\"strategy\":{\"generatedScript\":\"\"}}'',
                JObj [(''strategy'', JObj [(''generatedScript'', JStr [])])])])
      (replies ''{\"strategy\":{\"generatedScript\":\"\"}}'') ''https://lu.ma/demo''
     = Inr (JObj [(''strategy'', JObj [(''generatedScript'', JStr ''Script generation incomplete.''),
                                       (''structure'', JArr [] []),
                                       (''keyPhrases'', JArr [] [])]),
                  (''judges'', fallbackJudges)])
   \<and> nonEmptyString (readPath
        (JObj [(''strategy'', JObj [(''generatedScript'', JStr ''Script generation incomplete.''),
                                       (''structure'', JArr [] []),
                                       (''keyPhrases'', JArr [] [])]),
                  (''judges'', fallbackJudges)]) [''strategy'', ''generatedScript''])"
proof -
  have p: "map_of [(''{\"strategy\":{\"generatedScript\":\"\"}}'',
                JObj [(''strategy'', JObj [(''generatedScript'', JStr [])])])]
             ''{\"strategy\":{\"generatedScript\":\"\"}}''
           = Some (JObj [(''strategy'', JObj [(''generatedScript'', JStr [])])])"
    by simp
  have r: "(replies ''{\"strategy\":{\"generatedScript\":\"\"}}'' :: string \<Rightarrow> error + response)
             ''https://lu.ma/demo''
             = Inr \<lparr>resp_text = Some ''{\"strategy\":{\"generatedScript\":\"\"}}''\<rparr>"
    by (simp add: replies_def)
  have t: "resp_text \<lparr>resp_text = Some ''{\"strategy\":{\"generatedScript\":\"\"}}''\<rparr>
             = Some ''{\"strategy\":{\"generatedScript\":\"\"}}''"
    by simp
  have q: "readPath (JObj [(''strategy'', JObj [(''generatedScript'', JStr [])])])
       [''strategy'', ''generatedScript''] = Some (JStr [])"
    by (simp add: readProp_def)
  show ?thesis
    using generatedScript_truthy [OF r t p run_empty_script] q run_empty_script by simp
qed

text \<open>
  C6 says every list of every returned judge, and every list of the returned strategy, is a
  list. A reply with one judge that has only a name is returned with that judge as parsed:
  its \<^verbatim>\<open>values\<close> is still absent.
\<close>

theorem absent_lists_counterexample:
  "analyzeHackathonUrl
      (map_of [(''{\"judges\":[{\"name\":\"Ada\"}]}'',
                JObj [(''judges'', JArr [JObj [(''name'', JStr ''Ada'')]] [])])])
      (replies ''{\"judges\":[{\"name\":\"Ada\"}]}'') ''https://lu.ma/demo''
     = Inr (JObj [(''judges'', JArr [JObj [(''name'', JStr ''Ada'')]] []),
                  (''strategy'', defaultStrategy)])
   \<and> elements (readProp (JObj [(''judges'', JArr [JObj [(''name'', JStr ''Ada'')]] []),
                  (''strategy'', defaultStrategy)]) ''judges'')
       = [JObj [(''name'', JStr ''Ada'')]]
   \<and> readProp (JObj [(''name'', JStr ''Ada'')]) ''values'' = None
   \<and> \<not> isArray (readProp (JObj [(''name'', JStr ''Ada'')]) ''values'')"
  by (simp add: analyzeHackathonUrl_def replies_def sanitize_def andThen_def sanitizeJudges_def
        sanitizeStrategy_def ensureStrategyProp_def noJudges_def readProp_def defaultStrategy_def)

text \<open>
  C6, amended. On every return: if the reply had no judges, each of the four lists of each
  returned judge is an array (the built-in panel); a non-empty array of judges is returned
  as parsed, nothing is filled in inside a judge; the returned strategy's \<^verbatim>\<open>structure\<close>
  and \<^verbatim>\<open>keyPhrases\<close> are each the parsed value when that is truthy and an empty list
  otherwise; and if the reply had no strategy, the returned \<^verbatim>\<open>featuresToEmphasize\<close> is
  an empty list.
\<close>

theorem lists_repaired:
  assumes "generateContent u = Inr response" and "resp_text response = Some t"
    and "JSON_parse t = Some data"
    and "analyzeHackathonUrl JSON_parse generateContent u = Inr d"
  shows "(readProp data ''judges'' = None \<or> \<not> isArray (readProp data ''judges'')
            \<or> elements (readProp data ''judges'') = [] \<longrightarrow>
            (\<forall>jd \<in> set (elements (readProp d ''judges'')).
                \<forall>k \<in> set judgeLists. isArray (readProp jd k)))
       \<and> (isArray (readProp data ''judges'') \<and> elements (readProp data ''judges'') \<noteq> [] \<longrightarrow>
            readProp d ''judges'' = readProp data ''judges'')
       \<and> (\<forall>k \<in> {''structure'', ''keyPhrases''}.
            readPath d [''strategy'', k]
              = (if truthy (readPath data [''strategy'', k])
                 then readPath data [''strategy'', k] else Some (JArr [] [])))
       \<and> (\<not> truthy (readProp data ''strategy'') \<longrightarrow>
            readPath d [''strategy'', ''featuresToEmphasize''] = Some (JArr [] []))"
proof -
  have s: "sanitize data = Inr d" using assms by (rule returned_sanitized)
  note r = sanitized_judges [OF s]
  have c1: "readProp data ''judges'' = None \<or> \<not> isArray (readProp data ''judges'')
            \<or> elements (readProp data ''judges'') = [] \<longrightarrow>
            (\<forall>jd \<in> set (elements (readProp d ''judges'')).
                \<forall>k \<in> set judgeLists. isArray (readProp jd k))"
  proof
    assume "readProp data ''judges'' = None \<or> \<not> isArray (readProp data ''judges'')
            \<or> elements (readProp data ''judges'') = []"
    then have "noJudges (readProp data ''judges'')" by (simp add: noJudges_iff)
    with r have "readProp d ''judges'' = Some fallbackJudges" by simp
    then show "\<forall>jd \<in> set (elements (readProp d ''judges'')).
                \<forall>k \<in> set judgeLists. isArray (readProp jd k)"
      using fallback_lists by simp
  qed
  have c2: "isArray (readProp data ''judges'') \<and> elements (readProp data ''judges'') \<noteq> [] \<longrightarrow>
            readProp d ''judges'' = readProp data ''judges''"
  proof
    assume "isArray (readProp data ''judges'') \<and> elements (readProp data ''judges'') \<noteq> []"
    then have "\<not> noJudges (readProp data ''judges'')"
      by (cases "readProp data ''judges''") (simp_all add: noJudges_iff)
    with r show "readProp d ''judges'' = readProp data ''judges''" by simp
  qed
  have l: "readPath d [''strategy'', k]
              = (if truthy (readPath data [''strategy'', k])
                 then readPath data [''strategy'', k] else Some (JArr [] []))"
    if k: "k = ''structure'' \<or> k = ''keyPhrases''" for k
  proof (cases "truthy (readProp data ''strategy'')")
    case True
    show ?thesis
      using sanitized_strategy_present [OF s True, of k] k by auto
  next
    case False
    note a = sanitized_strategy_absent [OF s False, of k]
    have "readProp defaultStrategy k = Some (JArr [] [])"
      using k by (auto simp: defaultStrategy_def readProp_def)
    then show ?thesis unfolding a by simp
  qed
  have c3: "\<forall>k \<in> {''structure'', ''keyPhrases''}.
            readPath d [''strategy'', k]
              = (if truthy (readPath data [''strategy'', k])
                 then readPath data [''strategy'', k] else Some (JArr [] []))"
    using l by blast
  have c4: "\<not> truthy (readProp data ''strategy'') \<longrightarrow>
            readPath d [''strategy'', ''featuresToEmphasize''] = Some (JArr [] [])"
  proof
    assume f: "\<not> truthy (readProp data ''strategy'')"
    show "readPath d [''strategy'', ''featuresToEmphasize''] = Some (JArr [] [])"
      unfolding sanitized_strategy_absent(1) [OF s f]
      by (simp add: defaultStrategy_def readProp_def)
  qed
  show ?thesis using c1 c2 c3 c4 by blast
qed

theorem lists_repaired_witness:
  "elements (readProp (JObj [(''judges'', JArr [] [])]) ''judges'') = []
   \<and> isArray (readProp technicalJudge ''values'')
   \<and> isArray (readProp (JObj [(''judges'', JArr [JObj [(''name'', JStr ''Ada'')]] [])]) ''judges'')
   \<and> elements (readProp (JObj [(''judges'', JArr [JObj [(''name'', JStr ''Ada'')]] [])]) ''judges'')
        \<noteq> []
   \<and> \<not> truthy (readProp (JObj [(''judges'', JArr [JObj [(''name'', JStr ''Ada'')]] [])]) ''strategy'')
   \<and> readProp (JObj [(''judges'', JArr [JObj [(''name'', JStr ''Ada'')]] []),
                      (''strategy'', defaultStrategy)]) ''judges''
       = Some (JArr [JObj [(''name'', JStr ''Ada'')]] [])
   \<and> readPath (JObj [(''judges'', JArr [JObj [(''name'', JStr ''Ada'')]] []),
                      (''strategy'', defaultStrategy)]) [''strategy'', ''featuresToEmphasize'']
       = Some (JArr [] [])"
  using lists_repaired [OF replies_run resp_text_run table_run run_ada]
    lists_repaired [OF replies_run resp_text_run table_run run_empty_judges]
  by (simp add: readProp_def technicalJudge_def defaultStrategy_def)

section \<open>What the sanitation pass does not touch\<close>

text \<open>
  C10 says that the strategy defaults come in only when the strategy or one of its
  properties is absent. A reply with every property present, whose script is the empty
  string, is returned with the placeholder in place of the script: the strategy has changed.
\<close>

theorem strategy_default_when_present_counterexample:
  "readProp emptyScriptReply ''strategy''
     = Some (JObj [(''structure'', JArr [] []),
                   (''keyPhrases'', JArr [] []),
                   (''generatedScript'', JStr [])])
   \<and> readPath emptyScriptReply [''strategy'', ''structure''] = Some (JArr [] [])
   \<and> readPath emptyScriptReply [''strategy'', ''keyPhrases''] = Some (JArr [] [])
   \<and> readPath emptyScriptReply [''strategy'', ''generatedScript''] = Some (JStr [])
   \<and> analyzeHackathonUrl (map_of [(emptyScriptText, emptyScriptReply)]) (replies emptyScriptText)
        ''https://lu.ma/demo''
       = Inr (JObj
         [(''title'', JStr ''Hack''),
          (''url'', JStr ''https://lu.ma/demo''),
          (''criteria'', JArr [JStr ''Impact''] []),
          (''judges'', JArr [JObj [(''name'', JStr ''Ada'')]] []),
          (''strategy'', JObj [(''structure'', JArr [] []),
                               (''keyPhrases'', JArr [] []),
                               (''generatedScript'', JStr ''Script generation incomplete.'')])])
   \<and> readProp (JObj
         [(''title'', JStr ''Hack''),
          (''url'', JStr ''https://lu.ma/demo''),
          (''criteria'', JArr [JStr ''Impact''] []),
          (''judges'', JArr [JObj [(''name'', JStr ''Ada'')]] []),
          (''strategy'', JObj [(''structure'', JArr [] []),
                               (''keyPhrases'', JArr [] []),
                               (''generatedScript'', JStr ''Script generation incomplete.'')])])
        ''strategy''
       \<noteq> readProp emptyScriptReply ''strategy''"
  unfolding run_empty_script_complete
  by (simp add: emptyScriptReply_def readProp_def)

text \<open>
  C10, amended. On every return, \<^verbatim>\<open>title\<close>, \<^verbatim>\<open>url\<close> and \<^verbatim>\<open>criteria\<close> (indeed
  every property other than \<^verbatim>\<open>judges\<close> and \<^verbatim>\<open>strategy\<close>) are those of the parsed
  reply. Judges that are a non-empty array are returned unchanged; the judges change only to
  the built-in panel and only when they were missing, not an array, or empty. A strategy
  that is not truthy (absent, \<open>null\<close>, \<open>false\<close>, 0 or the empty string) is replaced by the
  default strategy. Inside a truthy strategy every property is returned as parsed, except
  a \<^verbatim>\<open>generatedScript\<close>, \<^verbatim>\<open>structure\<close> or \<^verbatim>\<open>keyPhrases\<close> that is not truthy: that
  one is replaced, the script by its placeholder, the other two by an empty list. So a
  strategy with these three truthy is returned unchanged, and a present but empty script
  is replaced.
\<close>

theorem sanitation_frame:
  assumes "generateContent u = Inr response" and "resp_text response = Some t"
    and "JSON_parse t = Some data"
    and "analyzeHackathonUrl JSON_parse generateContent u = Inr d"
  shows "readProp d ''title'' = readProp data ''title''
       \<and> readProp d ''url'' = readProp data ''url''
       \<and> readProp d ''criteria'' = readProp data ''criteria''
       \<and> (\<forall>k. k \<noteq> ''judges'' \<and> k \<noteq> ''strategy'' \<longrightarrow> readProp d k = readProp data k)
       \<and> (isArray (readProp data ''judges'') \<and> elements (readProp data ''judges'') \<noteq> [] \<longrightarrow>
            readProp d ''judges'' = readProp data ''judges'')
       \<and> (readProp d ''judges'' \<noteq> readProp data ''judges'' \<longrightarrow>
            readProp d ''judges'' = Some fallbackJudges
            \<and> (readProp data ''judges'' = None \<or> \<not> isArray (readProp data ''judges'')
               \<or> elements (readProp data ''judges'') = []))
       \<and> (truthy (readProp data ''strategy'') \<longrightarrow>
            (\<forall>k. (k \<noteq> ''generatedScript'' \<and> k \<noteq> ''structure'' \<and> k \<noteq> ''keyPhrases'')
                   \<or> truthy (readPath data [''strategy'', k]) \<longrightarrow>
                 readPath d [''strategy'', k] = readPath data [''strategy'', k]))
       \<and> (truthy (readProp data ''strategy'')
            \<and> truthy (readPath data [''strategy'', ''generatedScript''])
            \<and> truthy (readPath data [''strategy'', ''structure''])
            \<and> truthy (readPath data [''strategy'', ''keyPhrases'']) \<longrightarrow>
            readProp d ''strategy'' = readProp data ''strategy'')
       \<and> (readProp d ''strategy'' \<noteq> readProp data ''strategy'' \<longrightarrow>
            \<not> truthy (readProp data ''strategy'')
            \<or> \<not> truthy (readPath data [''strategy'', ''generatedScript''])
            \<or> \<not> truthy (readPath data [''strategy'', ''structure''])
            \<or> \<not> truthy (readPath data [''strategy'', ''keyPhrases'']))
       \<and> (truthy (readProp data ''strategy'') \<longrightarrow>
            (\<forall>k. readPath d [''strategy'', k]
                  = (if k = ''generatedScript'' \<and> \<not> truthy (readPath data [''strategy'', k])
                     then Some (JStr ''Script generation incomplete.'')
                     else if (k = ''structure'' \<or> k = ''keyPhrases'')
                             \<and> \<not> truthy (readPath data [''strategy'', k])
                     then Some (JArr [] [])
                     else readPath data [''strategy'', k])))
       \<and> (\<not> truthy (readProp data ''strategy'') \<longrightarrow>
            (\<forall>k. readPath d [''strategy'', k] = readProp defaultStrategy k))"
proof -
  have s: "sanitize data = Inr d" using assms by (rule returned_sanitized)
  note r = sanitized_judges [OF s]
  have c1: "readProp d ''title'' = readProp data ''title''"
    by (rule sanitized_frame [OF s]) simp_all
  have c2: "readProp d ''url'' = readProp data ''url''"
    by (rule sanitized_frame [OF s]) simp_all
  have c3: "readProp d ''criteria'' = readProp data ''criteria''"
    by (rule sanitized_frame [OF s]) simp_all
  have c4: "\<forall>k. k \<noteq> ''judges'' \<and> k \<noteq> ''strategy'' \<longrightarrow> readProp d k = readProp data k"
    using sanitized_frame [OF s] by blast
  have n: "noJudges (readProp data ''judges'') \<longleftrightarrow>
             \<not> (isArray (readProp data ''judges'') \<and> elements (readProp data ''judges'') \<noteq> [])"
    by (cases "readProp data ''judges''") (simp_all add: noJudges_iff)
  have c5: "isArray (readProp data ''judges'') \<and> elements (readProp data ''judges'') \<noteq> [] \<longrightarrow>
            readProp d ''judges'' = readProp data ''judges''"
    using r n by simp
  have c6: "readProp d ''judges'' \<noteq> readProp data ''judges'' \<longrightarrow>
            readProp d ''judges'' = Some fallbackJudges
            \<and> (readProp data ''judges'' = None \<or> \<not> isArray (readProp data ''judges'')
               \<or> elements (readProp data ''judges'') = [])"
  proof
    assume "readProp d ''judges'' \<noteq> readProp data ''judges''"
    with r have "noJudges (readProp data ''judges'')" by (simp split: if_splits)
    with r show "readProp d ''judges'' = Some fallbackJudges
            \<and> (readProp data ''judges'' = None \<or> \<not> isArray (readProp data ''judges'')
               \<or> elements (readProp data ''judges'') = [])"
      by (simp add: noJudges_iff)
  qed
  have c7: "truthy (readProp data ''strategy'') \<longrightarrow>
            (\<forall>k. (k \<noteq> ''generatedScript'' \<and> k \<noteq> ''structure'' \<and> k \<noteq> ''keyPhrases'')
                   \<or> truthy (readPath data [''strategy'', k]) \<longrightarrow>
                 readPath d [''strategy'', k] = readPath data [''strategy'', k])"
  proof (intro impI allI)
    fix k
    assume t: "truthy (readProp data ''strategy'')"
      and k: "(k \<noteq> ''generatedScript'' \<and> k \<noteq> ''structure'' \<and> k \<noteq> ''keyPhrases'')
                   \<or> truthy (readPath data [''strategy'', k])"
    show "readPath d [''strategy'', k] = readPath data [''strategy'', k]"
      using sanitized_strategy_present [OF s t, of k] k by auto
  qed
  have c8: "truthy (readProp data ''strategy'')
            \<and> truthy (readPath data [''strategy'', ''generatedScript''])
            \<and> truthy (readPath data [''strategy'', ''structure''])
            \<and> truthy (readPath data [''strategy'', ''keyPhrases'']) \<longrightarrow>
            readProp d ''strategy'' = readProp data ''strategy''"
    using sanitized_strategy_same [OF s] by blast
  have c9: "readProp d ''strategy'' \<noteq> readProp data ''strategy'' \<longrightarrow>
            \<not> truthy (readProp data ''strategy'')
            \<or> \<not> truthy (readPath data [''strategy'', ''generatedScript''])
            \<or> \<not> truthy (readPath data [''strategy'', ''structure''])
            \<or> \<not> truthy (readPath data [''strategy'', ''keyPhrases''])"
    using c8 by blast
  have c10: "truthy (readProp data ''strategy'') \<longrightarrow>
            (\<forall>k. readPath d [''strategy'', k]
                  = (if k = ''generatedScript'' \<and> \<not> truthy (readPath data [''strategy'', k])
                     then Some (JStr ''Script generation incomplete.'')
                     else if (k = ''structure'' \<or> k = ''keyPhrases'')
                             \<and> \<not> truthy (readPath data [''strategy'', k])
                     then Some (JArr [] [])
                     else readPath data [''strategy'', k]))"
    using sanitized_strategy_present [OF s] by blast
  have c11: "\<not> truthy (readProp data ''strategy'') \<longrightarrow>
            (\<forall>k. readPath d [''strategy'', k] = readProp defaultStrategy k)"
    using sanitized_strategy_absent(1) [OF s] by blast
  show ?thesis
    by (intro conjI) (fact c1 c2 c3 c4 c5 c6 c7 c8 c9 c10 c11)+
qed

theorem sanitation_frame_witness:
  "isArray (readProp completeReply ''judges'') \<and> elements (readProp completeReply ''judges'') \<noteq> []
   \<and> truthy (readProp completeReply ''strategy'')
   \<and> truthy (readPath completeReply [''strategy'', ''generatedScript''])
   \<and> truthy (readPath completeReply [''strategy'', ''structure''])
   \<and> truthy (readPath completeReply [''strategy'', ''keyPhrases''])
   \<and> analyzeHackathonUrl (map_of [(completeReplyText, completeReply)]) (replies completeReplyText) ''https://lu.ma/demo''
       = Inr completeReply
   \<and> readProp completeReply ''title'' = Some (JStr ''Hack'')
   \<and> truthy (readProp emptyScriptReply ''strategy'')
   \<and> \<not> truthy (readPath emptyScriptReply [''strategy'', ''generatedScript''])
   \<and> \<not> truthy (readProp (JObj [(''judges'', JArr [JObj [(''name'', JStr ''Ada'')]] [])])
          ''strategy'')"
proof -
  have a: "isArray (readProp completeReply ''judges'')"
      "elements (readProp completeReply ''judges'') \<noteq> []"
      "truthy (readProp completeReply ''strategy'')"
      "truthy (readPath completeReply [''strategy'', ''generatedScript''])"
      "truthy (readPath completeReply [''strategy'', ''structure''])"
      "truthy (readPath completeReply [''strategy'', ''keyPhrases''])"
      "readProp completeReply ''title'' = Some (JStr ''Hack'')"
    by (simp_all add: completeReply_def readProp_def)
  have b: "truthy (readProp emptyScriptReply ''strategy'')"
      "\<not> truthy (readPath emptyScriptReply [''strategy'', ''generatedScript''])"
    by (simp_all add: emptyScriptReply_def readProp_def)
  have c: "\<not> truthy (readProp (JObj [(''judges'', JArr [JObj [(''name'', JStr ''Ada'')]] [])])
          ''strategy'')"
    by (simp add: readProp_def)
  note f = sanitation_frame [OF replies_run resp_text_run table_run run_full]
  note g = sanitation_frame [OF replies_run resp_text_run table_run run_empty_script_complete]
  note h = sanitation_frame [OF replies_run resp_text_run table_run run_ada]
  have "readProp completeReply ''strategy'' = readProp completeReply ''strategy''"
    using f a by blast
  moreover have "readPath (JObj
         [(''title'', JStr ''Hack''),
          (''url'', JStr ''https://lu.ma/demo''),
          (''criteria'', JArr [JStr ''Impact''] []),
          (''judges'', JArr [JObj [(''name'', JStr ''Ada'')]] []),
          (''strategy'', JObj [(''structure'', JArr [] []),
                               (''keyPhrases'', JArr [] []),
                               (''generatedScript'', JStr ''Script generation incomplete.'')])])
        [''strategy'', ''generatedScript'']
       = Some (JStr ''Script generation incomplete.'')"
    using g b by metis
  moreover have "readPath (JObj [(''judges'', JArr [JObj [(''name'', JStr ''Ada'')]] []),
                  (''strategy'', defaultStrategy)]) [''strategy'', ''structure'']
       = readProp defaultStrategy ''structure''"
    using h c by blast
  ultimately show ?thesis using a b c run_full by simp
qed

section \<open>The video critique\<close>

text \<open>
  C7. \<open>analyzeVideoDemo\<close> returns a value only when the video was read, the inference
  call was fulfilled and its text is not empty, and the value is then exactly what the
  parser made of that text: nothing is repaired and no number is clamped (the run below
  returns a critique whose \<^verbatim>\<open>overallScore\<close> is 150). Whenever the text is accepted by
  the parser, that value is returned. When the video cannot be read, when the inference
  call is rejected, when the text is absent or empty, or when the text does not parse, the
  call ends with an error.
\<close>

theorem critique_verbatim_or_error:
  "(\<forall>r. analyzeVideoDemo JSON_parse readAsDataURL generateContent videoBlob hackathonData = Inr r \<longrightarrow>
      (\<exists>dataUrl response t. readAsDataURL videoBlob = Inr dataUrl
         \<and> generateContent (videoRequestOf (afterComma dataUrl) hackathonData) = Inr response
         \<and> resp_text response = Some t \<and> t \<noteq> [] \<and> JSON_parse t = Some r))
   \<and> (\<forall>dataUrl response t v. readAsDataURL videoBlob = Inr dataUrl
         \<and> generateContent (videoRequestOf (afterComma dataUrl) hackathonData) = Inr response
         \<and> resp_text response = Some t \<and> t \<noteq> [] \<and> JSON_parse t = Some v \<longrightarrow>
       analyzeVideoDemo JSON_parse readAsDataURL generateContent videoBlob hackathonData = Inr v)
   \<and> (\<forall>e. readAsDataURL videoBlob = Inl e \<longrightarrow>
       analyzeVideoDemo JSON_parse readAsDataURL generateContent videoBlob hackathonData = Inl e)
   \<and> (\<forall>dataUrl e. readAsDataURL videoBlob = Inr dataUrl
         \<and> generateContent (videoRequestOf (afterComma dataUrl) hackathonData) = Inl e \<longrightarrow>
       analyzeVideoDemo JSON_parse readAsDataURL generateContent videoBlob hackathonData = Inl e)
   \<and> (\<forall>dataUrl response. readAsDataURL videoBlob = Inr dataUrl
         \<and> generateContent (videoRequestOf (afterComma dataUrl) hackathonData) = Inr response
         \<and> (resp_text response = None \<or> resp_text response = Some []) \<longrightarrow>
       analyzeVideoDemo JSON_parse readAsDataURL generateContent videoBlob hackathonData
         = Inl (Error ''Analysis failed''))
   \<and> (\<forall>dataUrl response t. readAsDataURL videoBlob = Inr dataUrl
         \<and> generateContent (videoRequestOf (afterComma dataUrl) hackathonData) = Inr response
         \<and> resp_text response = Some t \<and> t \<noteq> [] \<and> JSON_parse t = None \<longrightarrow>
       analyzeVideoDemo JSON_parse readAsDataURL generateContent videoBlob hackathonData
         = Inl SyntaxError)"
proof -
  let ?a = "analyzeVideoDemo JSON_parse readAsDataURL generateContent videoBlob hackathonData"
  have c1: "\<forall>r. ?a = Inr r \<longrightarrow>
      (\<exists>dataUrl response t. readAsDataURL videoBlob = Inr dataUrl
         \<and> generateContent (videoRequestOf (afterComma dataUrl) hackathonData) = Inr response
         \<and> resp_text response = Some t \<and> t \<noteq> [] \<and> JSON_parse t = Some r)"
    by (auto simp: analyzeVideoDemo_def blobToBase64_def
        split: sum.splits option.splits if_splits)
  have c2: "\<forall>dataUrl response t v. readAsDataURL videoBlob = Inr dataUrl
         \<and> generateContent (videoRequestOf (afterComma dataUrl) hackathonData) = Inr response
         \<and> resp_text response = Some t \<and> t \<noteq> [] \<and> JSON_parse t = Some v \<longrightarrow> ?a = Inr v"
    by (simp add: analyzeVideoDemo_def blobToBase64_def)
  have c3: "\<forall>e. readAsDataURL videoBlob = Inl e \<longrightarrow> ?a = Inl e"
    by (simp add: analyzeVideoDemo_def blobToBase64_def)
  have c4: "\<forall>dataUrl e. readAsDataURL videoBlob = Inr dataUrl
         \<and> generateContent (videoRequestOf (afterComma dataUrl) hackathonData) = Inl e \<longrightarrow>
       ?a = Inl e"
    by (simp add: analyzeVideoDemo_def blobToBase64_def)
  have c5: "\<forall>dataUrl response. readAsDataURL videoBlob = Inr dataUrl
         \<and> generateContent (videoRequestOf (afterComma dataUrl) hackathonData) = Inr response
         \<and> (resp_text response = None \<or> resp_text response = Some []) \<longrightarrow>
       ?a = Inl (Error ''Analysis failed'')"
    by (auto simp: analyzeVideoDemo_def blobToBase64_def)
  have c6: "\<forall>dataUrl response t. readAsDataURL videoBlob = Inr dataUrl
         \<and> generateContent (videoRequestOf (afterComma dataUrl) hackathonData) = Inr response
         \<and> resp_text response = Some t \<and> t \<noteq> [] \<and> JSON_parse t = None \<longrightarrow>
       ?a = Inl SyntaxError"
    by (simp add: analyzeVideoDemo_def blobToBase64_def)
  show ?thesis
    by (intro conjI) (fact c1 c2 c3 c4 c5 c6)+
qed

theorem critique_verbatim_or_error_witness:
  "analyzeVideoDemo (map_of [(critiqueText, critique)]) Inr (replies critiqueText)
       ''data:video/webm;base64,AAAA'' demoData = Inr critique
   \<and> readProp critique ''overallScore'' = Some (JNum 150)
   \<and> analyzeVideoDemo (map_of [(critiqueText, critique)]) Inl (replies critiqueText)
       (Rejected ''NotReadableError'') demoData = Inl (Rejected ''NotReadableError'')
   \<and> analyzeVideoDemo (map_of [(critiqueText, critique)]) Inr (rejects (Rejected ''NetworkError''))
       ''data:video/webm;base64,AAAA'' demoData = Inl (Rejected ''NetworkError'')
   \<and> analyzeVideoDemo (map_of [(critiqueText, critique)]) Inr (replies [])
       ''data:video/webm;base64,AAAA'' demoData = Inl (Error ''Analysis failed'')"
proof -
  have n: "critiqueText \<noteq> []" by (simp add: critiqueText_def)
  have o: "readProp critique ''overallScore'' = Some (JNum 150)"
    by (simp add: critique_def readProp_def)
  show ?thesis
    using critique_verbatim_or_error [of "map_of [(critiqueText, critique)]" Inr
        "replies critiqueText" "''data:video/webm;base64,AAAA''" demoData]
      critique_verbatim_or_error [of "map_of [(critiqueText, critique)]" Inl
        "replies critiqueText" "Rejected ''NotReadableError''" demoData]
      critique_verbatim_or_error [of "map_of [(critiqueText, critique)]" Inr
        "rejects (Rejected ''NetworkError'')" "''data:video/webm;base64,AAAA''" demoData]
      critique_verbatim_or_error [of "map_of [(critiqueText, critique)]" Inr
        "replies []" "''data:video/webm;base64,AAAA''" demoData]
      n o
    by (simp add: replies_def rejects_def)
qed

section \<open>The coaching tip\<close>

text \<open>
  C4. For every transcript and rate \<open>getRealTimeFeedback\<close> returns a tip and never an
  error. When the inference call is rejected, and when its text is absent or empty, the
  tip is \<^verbatim>\<open>Keep going!\<close>; otherwise it is the text of the reply.
\<close>

theorem tip_never_raises:
  "(\<exists>tip. getRealTimeFeedback generateContent transcript rate = Inr tip)
   \<and> (\<forall>e. generateContent (transcript, rate) = Inl e \<longrightarrow>
          getRealTimeFeedback generateContent transcript rate = Inr ''Keep going!'')
   \<and> (\<forall>r. generateContent (transcript, rate) = Inr r
            \<and> (resp_text r = None \<or> resp_text r = Some []) \<longrightarrow>
          getRealTimeFeedback generateContent transcript rate = Inr ''Keep going!'')
   \<and> (\<forall>r t. generateContent (transcript, rate) = Inr r \<and> resp_text r = Some t \<and> t \<noteq> [] \<longrightarrow>
          getRealTimeFeedback generateContent transcript rate = Inr t)"
proof -
  have c1: "\<exists>tip. getRealTimeFeedback generateContent transcript rate = Inr tip"
    by (simp add: getRealTimeFeedback_def split: sum.splits)
  have c2: "\<forall>e. generateContent (transcript, rate) = Inl e \<longrightarrow>
          getRealTimeFeedback generateContent transcript rate = Inr ''Keep going!''"
    by (simp add: getRealTimeFeedback_def feedbackBody_def)
  have c3: "\<forall>r. generateContent (transcript, rate) = Inr r
            \<and> (resp_text r = None \<or> resp_text r = Some []) \<longrightarrow>
          getRealTimeFeedback generateContent transcript rate = Inr ''Keep going!''"
    by (auto simp: getRealTimeFeedback_def feedbackBody_def)
  have c4: "\<forall>r t. generateContent (transcript, rate) = Inr r \<and> resp_text r = Some t \<and> t \<noteq> [] \<longrightarrow>
          getRealTimeFeedback generateContent transcript rate = Inr t"
    by (auto simp: getRealTimeFeedback_def feedbackBody_def)
  show ?thesis using c1 c2 c3 c4 by blast
qed

theorem tip_never_raises_witness:
  "rejects (Rejected ''NetworkError'') (''so our app'', 120 :: int) = Inl (Rejected ''NetworkError'')
   \<and> getRealTimeFeedback (rejects (Rejected ''NetworkError'')) ''so our app'' 120
       = Inr ''Keep going!''
   \<and> getRealTimeFeedback (replies []) ''so our app'' 120 = Inr ''Keep going!''
   \<and> getRealTimeFeedback (replies ''Great energy!'') ''so our app'' 120 = Inr ''Great energy!''"
  using tip_never_raises [of "rejects (Rejected ''NetworkError'')" "''so our app''" 120]
    tip_never_raises [of "replies []" "''so our app''" 120]
    tip_never_raises [of "replies ''Great energy!''" "''so our app''" 120]
  by (simp add: rejects_def replies_def)

lemma getRealTimeFeedback_returns:
  "\<exists>tip. getRealTimeFeedback generateContent transcript rate = Inr tip"
  by (simp add: getRealTimeFeedback_def split: sum.splits)

section \<open>Rounding to a double\<close>

lemma roundEven_lower: "q - 1 / 2 \<le> rat_of_int (roundEven q)"
  unfolding roundEven_def Let_def by (auto; linarith)

lemma roundEven_upper: "rat_of_int (roundEven q) \<le> q + 1 / 2"
  unfolding roundEven_def Let_def by (auto; linarith)

lemma roundEven_of_int: "roundEven (rat_of_int n) = n"
  unfolding roundEven_def Let_def by simp

lemma roundEven_ge_int: "rat_of_int n \<le> q \<Longrightarrow> n \<le> roundEven q"
  unfolding roundEven_def Let_def by (auto simp: le_floor_iff; linarith)

lemma roundEven_floor: "\<lfloor>q\<rfloor> \<le> roundEven q" "roundEven q \<le> \<lfloor>q\<rfloor> + 1"
  unfolding roundEven_def Let_def by auto

lemma roundEven_le_int: "q \<le> rat_of_int n \<Longrightarrow> roundEven q \<le> n"
proof (cases "q = rat_of_int n")
  case True
  then show ?thesis by (simp add: roundEven_of_int)
next
  case False
  assume "q \<le> rat_of_int n"
  with False have "q < rat_of_int n" by simp
  then have "\<lfloor>q\<rfloor> < n" by (simp add: floor_less_iff)
  then show ?thesis using roundEven_floor(2) [of q] by linarith
qed

lemma roundEven_mono: "a \<le> b \<Longrightarrow> roundEven a \<le> roundEven b"
proof (cases "\<lfloor>a\<rfloor> < \<lfloor>b\<rfloor>")
  case True
  then show ?thesis using roundEven_floor(2) [of a] roundEven_floor(1) [of b] by linarith
next
  case False
  assume ab: "a \<le> b"
  then have "\<lfloor>a\<rfloor> \<le> \<lfloor>b\<rfloor>" by (rule floor_mono)
  with False have eq: "\<lfloor>a\<rfloor> = \<lfloor>b\<rfloor>" by simp
  then have "a - rat_of_int \<lfloor>a\<rfloor> \<le> b - rat_of_int \<lfloor>b\<rfloor>" using ab by simp
  then show ?thesis unfolding roundEven_def Let_def eq by auto
qed

lemma ilog2_bounds:
  assumes "0 < x"
  shows "2 powi ilog2 x \<le> x" and "x < 2 powi (ilog2 x + 1)"
proof -
  obtain a b where q: "quotient_of x = (a, b)" by (cases "quotient_of x")
  then have b: "0 < b" and x: "x = rat_of_int a / rat_of_int b"
    by (auto simp: quotient_of_denom_pos quotient_of_div)
  with assms have a: "0 < a" by (simp add: zero_less_divide_iff)
  let ?la = "bitlen a" and ?lb = "bitlen b"
  from bitlen_bounds [OF a] have a1: "2 ^ nat (?la - 1) \<le> a" and a2: "a < 2 ^ nat ?la" by auto
  from bitlen_bounds [OF b] have b1: "2 ^ nat (?lb - 1) \<le> b" and b2: "b < 2 ^ nat ?lb" by auto
  have la: "1 \<le> ?la" using a by (auto simp: bitlen_alt_def)
  have lb: "1 \<le> ?lb" using b by (auto simp: bitlen_alt_def)
  have ra1: "(2::rat) powi (?la - 1) \<le> rat_of_int a"
  proof -
    have "rat_of_int (2 ^ nat (?la - 1)) \<le> rat_of_int a" using a1 by (simp only: of_int_le_iff)
    then show ?thesis using la by (simp add: power_int_def)
  qed
  have ra2: "rat_of_int a < 2 powi ?la"
  proof -
    have "rat_of_int a < rat_of_int (2 ^ nat ?la)" using a2 by (simp only: of_int_less_iff)
    then show ?thesis using la by (simp add: power_int_def)
  qed
  have rb1: "(2::rat) powi (?lb - 1) \<le> rat_of_int b"
  proof -
    have "rat_of_int (2 ^ nat (?lb - 1)) \<le> rat_of_int b" using b1 by (simp only: of_int_le_iff)
    then show ?thesis using lb by (simp add: power_int_def)
  qed
  have rb2: "rat_of_int b < 2 powi ?lb"
  proof -
    have "rat_of_int b < rat_of_int (2 ^ nat ?lb)" using b2 by (simp only: of_int_less_iff)
    then show ?thesis using lb by (simp add: power_int_def)
  qed
  let ?d = "?la - ?lb"
  have rb: "0 < rat_of_int b" using b by simp
  have lo: "(2::rat) powi (?d - 1) \<le> x"
  proof -
    have "(2::rat) powi (?d - 1) * rat_of_int b \<le> 2 powi (?d - 1) * 2 powi ?lb"
      using rb2 by (intro mult_left_mono) auto
    also have "\<dots> = 2 powi (?la - 1)" by (simp add: power_int_add [symmetric])
    also have "\<dots> \<le> rat_of_int a" by (rule ra1)
    finally show ?thesis unfolding x using rb by (simp add: pos_le_divide_eq)
  qed
  have hi: "x < 2 powi (?d + 1)"
  proof -
    have "rat_of_int a < 2 powi ?la" by (rule ra2)
    also have "\<dots> = 2 powi (?d + 1) * 2 powi (?lb - 1)" by (simp add: power_int_add [symmetric])
    also have "\<dots> \<le> 2 powi (?d + 1) * rat_of_int b"
      using rb1 by (intro mult_left_mono) auto
    finally show ?thesis unfolding x using rb by (simp add: pos_divide_less_eq)
  qed
  have il: "ilog2 x = (if 2 powi ?d \<le> x then ?d else ?d - 1)"
    by (simp add: ilog2_def q Let_def)
  show "2 powi ilog2 x \<le> x" using lo by (simp add: il)
  show "x < 2 powi (ilog2 x + 1)" using hi by (auto simp: il not_le)
qed

lemma powi_less_imp: "(2::rat) powi a < 2 powi b \<Longrightarrow> a < b"
proof (rule ccontr)
  assume l: "(2::rat) powi a < 2 powi b" and "\<not> a < b"
  then have "b \<le> a" by simp
  then have "(2::rat) powi b \<le> 2 powi a" by (rule power_int_increasing) simp
  with l show False by simp
qed

lemma ilog2_unique:
  assumes "2 powi e \<le> x" and "x < 2 powi (e + 1)"
  shows "ilog2 x = e"
proof -
  have pos: "0 < x" using assms(1) by (rule less_le_trans [rotated]) simp
  note b = ilog2_bounds [OF pos]
  have "(2::rat) powi e < 2 powi (ilog2 x + 1)" using assms(1) b(2) by simp
  then have 1: "e < ilog2 x + 1" by (rule powi_less_imp)
  have "(2::rat) powi ilog2 x < 2 powi (e + 1)" using assms(2) b(1) by simp
  then have 2: "ilog2 x < e + 1" by (rule powi_less_imp)
  from 1 2 show ?thesis by simp
qed


lemma powi_scale: "rat_of_int (2 ^ n) * 2 powi (e - int n) = 2 powi e"
proof -
  have "rat_of_int (2 ^ n) = 2 powi (int n)" by simp
  then have "rat_of_int (2 ^ n) * 2 powi (e - int n) = 2 powi (int n) * 2 powi (e - int n)"
    by (simp only:)
  also have "\<dots> = 2 powi (int n + (e - int n))"
    by (rule power_int_add [symmetric]) simp
  finally show ?thesis by simp
qed

lemma binary64_binade:
  assumes "2 powi e \<le> x" and "x < 2 powi (e + 1)"
  shows "binary64 x = rat_of_int (roundEven (x / 2 powi (e - 52))) * 2 powi (e - 52)"
proof -
  have pos: "0 < x" using assms(1) by (rule less_le_trans [rotated]) simp
  then have "\<bar>x\<bar> = x" by simp
  then show ?thesis
    using pos ilog2_unique [OF assms] by (simp add: binary64_def Let_def)
qed

lemma binary64_ge_powi:
  assumes "2 powi k \<le> x"
  shows "2 powi k \<le> binary64 x"
proof -
  have pos: "0 < x" using assms by (rule less_le_trans [rotated]) simp
  let ?e = "ilog2 x"
  let ?u = "(2::rat) powi (?e - 52)"
  define M :: int where "M = 2 ^ 52"
  note b = ilog2_bounds [OF pos]
  have u: "0 < ?u" by simp
  have "(2::rat) powi k < 2 powi (?e + 1)" using assms b(2) by simp
  then have ke: "k \<le> ?e" using powi_less_imp [of k "?e + 1"] by simp
  have m: "rat_of_int M * ?u = 2 powi ?e"
    unfolding M_def using powi_scale [of 52 ?e] by simp
  have "rat_of_int M * ?u \<le> x" using b(1) m by simp
  then have "rat_of_int M \<le> x / ?u" using u by (simp add: pos_le_divide_eq)
  then have "M \<le> roundEven (x / ?u)" by (rule roundEven_ge_int)
  then have r: "rat_of_int M \<le> rat_of_int (roundEven (x / ?u))" by (simp only: of_int_le_iff)
  have "(2::rat) powi k \<le> 2 powi ?e" using ke by (rule power_int_increasing) simp
  also have "\<dots> = rat_of_int M * ?u" using m by simp
  also have "\<dots> \<le> rat_of_int (roundEven (x / ?u)) * ?u"
    using r by (rule mult_right_mono) simp
  also have "\<dots> = binary64 x" using binary64_binade [OF b] by simp
  finally show ?thesis .
qed

lemma binary64_le_powi:
  assumes "0 < x" and "x < 2 powi k"
  shows "binary64 x \<le> 2 powi k"
proof -
  let ?e = "ilog2 x"
  let ?u = "(2::rat) powi (?e - 52)"
  define M :: int where "M = 2 ^ 53"
  note b = ilog2_bounds [OF assms(1)]
  have u: "0 < ?u" by simp
  have "(2::rat) powi ?e < 2 powi k" using assms(2) b(1) by simp
  then have ke: "?e + 1 \<le> k" using powi_less_imp [of ?e k] by simp
  have m: "rat_of_int M * ?u = 2 powi (?e + 1)"
    unfolding M_def using powi_scale [of 53 "?e + 1"] by simp
  have "x \<le> rat_of_int M * ?u" using b(2) m by simp
  then have "x / ?u \<le> rat_of_int M" using u by (simp add: pos_divide_le_eq)
  then have "roundEven (x / ?u) \<le> M" by (rule roundEven_le_int)
  then have r: "rat_of_int (roundEven (x / ?u)) \<le> rat_of_int M" by (simp only: of_int_le_iff)
  have "binary64 x = rat_of_int (roundEven (x / ?u)) * ?u" using binary64_binade [OF b] by simp
  also have "\<dots> \<le> rat_of_int M * ?u"
    using r by (rule mult_right_mono) simp
  also have "\<dots> = 2 powi (?e + 1)" by (rule m)
  also have "\<dots> \<le> 2 powi k" using ke by (rule power_int_increasing) simp
  finally show ?thesis .
qed

lemma binary64_nonpos:
  assumes "x \<le> 0"
  shows "binary64 x \<le> 0"
proof (cases "x = 0")
  case True
  then show ?thesis by (simp add: binary64_def)
next
  case False
  let ?u = "(2::rat) powi (ilog2 \<bar>x\<bar> - 52)"
  have u: "0 < ?u" by simp
  have "x / ?u \<le> rat_of_int 0" using assms u by (simp add: divide_le_0_iff)
  then have "roundEven (x / ?u) \<le> 0" by (rule roundEven_le_int)
  then have "rat_of_int (roundEven (x / ?u)) * ?u \<le> 0"
    using u by (simp add: mult_le_0_iff)
  then show ?thesis using False by (simp add: binary64_def Let_def)
qed

lemma binary64_of_int:
  assumes "\<bar>n\<bar> < 2 ^ 53" and "0 < n"
  shows "binary64 (rat_of_int n) = rat_of_int n"
proof -
  let ?x = "rat_of_int n"
  have pos: "0 < ?x" using assms(2) by simp
  let ?e = "ilog2 ?x"
  note b = ilog2_bounds [OF pos]
  have "?x < 2 powi 53" using assms by simp
  with b(1) have "(2::rat) powi ?e < 2 powi 53" by simp
  then have e53: "?e < 53" by (rule powi_less_imp)
  have "(2::rat) powi 0 \<le> ?x" using assms(2) by simp
  with b(2) have "(2::rat) powi 0 < 2 powi (?e + 1)" by simp
  then have e0: "0 \<le> ?e" using powi_less_imp [of 0 "?e + 1"] by simp
  let ?m = "nat (52 - ?e)"
  have u: "(2::rat) powi (?e - 52) = 1 / 2 ^ ?m"
    using e53 by (simp add: power_int_def field_simps)
  have "?x / 2 powi (?e - 52) = rat_of_int (n * 2 ^ ?m)" by (simp add: u)
  then have "roundEven (?x / 2 powi (?e - 52)) = n * 2 ^ ?m"
    by (simp only: roundEven_of_int)
  then show ?thesis using binary64_binade [OF b] by (simp add: u)
qed

lemma binary64_mono_pos:
  assumes "0 < x" and "x \<le> y"
  shows "binary64 x \<le> binary64 y"
proof -
  let ?e = "ilog2 x"
  let ?u = "(2::rat) powi (?e - 52)"
  note b = ilog2_bounds [OF assms(1)]
  have u: "0 < ?u" by simp
  show ?thesis
  proof (cases "y < 2 powi (?e + 1)")
    case True
    have ly: "2 powi ?e \<le> y" using b(1) assms(2) by simp
    have "x / ?u \<le> y / ?u" using assms(2) by (rule divide_right_mono) simp
    then have "roundEven (x / ?u) \<le> roundEven (y / ?u)" by (rule roundEven_mono)
    then have "rat_of_int (roundEven (x / ?u)) \<le> rat_of_int (roundEven (y / ?u))"
      by (simp only: of_int_le_iff)
    then have "rat_of_int (roundEven (x / ?u)) * ?u \<le> rat_of_int (roundEven (y / ?u)) * ?u"
      by (rule mult_right_mono) simp
    then show ?thesis
      using binary64_binade [OF b] binary64_binade [OF ly True] by simp
  next
    case False
    then have "2 powi (?e + 1) \<le> y" by simp
    then have "2 powi (?e + 1) \<le> binary64 y" by (rule binary64_ge_powi)
    moreover have "binary64 x \<le> 2 powi (?e + 1)"
      using assms(1) b(2) by (rule binary64_le_powi)
    ultimately show ?thesis by simp
  qed
qed

section \<open>The pacer\<close>

lemma binary64_int_le:
  assumes "n \<le> 4800"
  shows "binary64 (rat_of_int n) \<le> 4800"
proof (cases "0 < n")
  case True
  with assms have "\<bar>n\<bar> < 2 ^ 53" by simp
  then have "binary64 (rat_of_int n) = rat_of_int n" using True by (rule binary64_of_int)
  with assms show ?thesis by simp
next
  case False
  then have "rat_of_int n \<le> 0" by simp
  then have "binary64 (rat_of_int n) \<le> 0" by (rule binary64_nonpos)
  then show ?thesis by simp
qed

lemma binary64_int_ge:
  assumes "4801 \<le> n"
  shows "4801 \<le> binary64 (rat_of_int n)"
proof -
  have "binary64 (rat_of_int 4801) = rat_of_int 4801"
    by (rule binary64_of_int) simp_all
  moreover have "binary64 (rat_of_int 4801) \<le> binary64 (rat_of_int n)"
    using assms by (intro binary64_mono_pos) simp_all
  ultimately show ?thesis by simp
qed

lemma threshold_value: "minInterval = 5764607523034235 / 72057594037927936"
  by code_simp

lemma threshold_pos: "0 < minInterval"
  unfolding threshold_value by simp

lemma above_threshold_value: "minInterval < binary64 (4801 / 60000)"
  by code_simp

lemma interval:
  "(minutesSince st now > minInterval) = (now - lastTranscriptTimeRef st > 4800)"
proof -
  let ?n = "now - lastTranscriptTimeRef st"
  let ?d = "binary64 (rat_of_int ?n)"
  have m: "minutesSince st now = binary64 (?d / 60000)"
    by (simp add: minutesSince_def div64_def sub64_def)
  show ?thesis
  proof (cases "?n > 4800")
    case True
    then have "4801 \<le> ?d" by (intro binary64_int_ge) simp
    then have "4801 / 60000 \<le> ?d / 60000" by simp
    then have "binary64 (4801 / 60000) \<le> binary64 (?d / 60000)"
      by (intro binary64_mono_pos) simp_all
    with above_threshold_value True show ?thesis unfolding m by simp
  next
    case False
    then have "?d \<le> 4800" by (intro binary64_int_le) simp
    then have le: "?d / 60000 \<le> 8 / 100" by simp
    have "binary64 (?d / 60000) \<le> minInterval"
    proof (cases "0 < ?d / 60000")
      case True
      then show ?thesis unfolding minInterval_def using le by (rule binary64_mono_pos)
    next
      case False
      then have "binary64 (?d / 60000) \<le> 0" by (intro binary64_nonpos) simp
      also have "0 \<le> minInterval" using threshold_pos by (rule less_imp_le)
      finally show ?thesis .
    qed
    with False show ?thesis unfolding m by simp
  qed
qed

lemma observe_below:
  "now - lastTranscriptTimeRef st \<le> 4800 \<Longrightarrow> observe ft w now st = st"
  by (simp add: observe_def interval Let_def)

lemma observe_above:
  assumes "now - lastTranscriptTimeRef st > 4800"
  shows "observe ft w now st =
     st\<lparr>wpm := max 0 (rateAt st w now), wordCountRef := w, lastTranscriptTimeRef := now,
        inFlight := (if rateAt st w now > 0
                     then inFlight st @ [(sliceLast 100 ft, rateAt st w now)]
                     else inFlight st)\<rparr>"
  using assms by (simp add: observe_def interval Let_def max_def)

lemma binary64_zero: "binary64 0 = 0"
  by (simp add: binary64_def)

lemma Math_round_int: "Math_round (rat_of_int n) = n"
  unfolding Math_round_def by (rule floor_unique) simp_all

lemma rateAt_same_count: "rateAt st (wordCountRef st) now = 0"
  using Math_round_int [of 0] by (simp add: rateAt_def sub64_def div64_def binary64_zero)

lemma rate_20_10000: "rateAt (initialMirror 0) 20 10000 = 120"
  by code_simp

lemma rate_10_7000: "rateAt (initialMirror 0) 10 7000 = 86"
  by code_simp

lemma rate_10_9500: "rateAt (initialMirror 0) 10 9500 = 63"
  by code_simp

lemma rate_1_24000: "rateAt (initialMirror 0) 1 24000 = 3"
  by code_simp

lemma rate_12_6400: "rateAt (initialMirror 0) 12 6400 = 112"
  by code_simp

lemma initial_time: "lastTranscriptTimeRef (initialMirror t0) = t0"
  by (simp add: initialMirror_def)

text \<open>
  C3. An observation \<open>(w, now)\<close> that comes no more than 4800 ms (0.08 minutes) after
  the last computation leaves the state, and so \<^verbatim>\<open>wpm\<close>, as it was; two such
  observations in a row do too. One that comes later sets \<^verbatim>\<open>wpm\<close> to the rate, or to
  0 if the rate is negative, and records the count and the time. The rate is
  \<^verbatim>\<open>Math.round\<close> of the quotient of the word difference by the elapsed minutes, each
  difference and quotient a double. A tip is requested exactly when the rate was computed
  anew and the new \<^verbatim>\<open>wpm\<close> is positive, and the request carries that rate. With no new
  words after the interval, \<^verbatim>\<open>wpm\<close> is 0 and no tip is requested. From 0 words at time
  0, 20 words at 10 s give 120 words per minute and a request. The rounding is to the
  nearest integer: 10 words at 7 s give 86 (from 85.71), 10 words at 9.5 s give 63 (from
  63.16), 1 word at 24 s gives 3 (from 2.5). The quotient is the double one: 12 words at
  6.4 s give 112, the double quotient being just below 112.5.
\<close>

theorem pacer_observe:
  "(now - lastTranscriptTimeRef st \<le> 4800 \<longrightarrow>
      wpm (observe ft w now st) = wpm st \<and> observe ft w now st = st)
   \<and> (now - lastTranscriptTimeRef st > 4800 \<longrightarrow>
        wpm (observe ft w now st) = max 0 (rateAt st w now)
      \<and> wordCountRef (observe ft w now st) = w
      \<and> lastTranscriptTimeRef (observe ft w now st) = now)
   \<and> rateAt st w now
        = Math_round (binary64 (binary64 (rat_of_int w - rat_of_int (wordCountRef st))
            / binary64 (binary64 (rat_of_int now - rat_of_int (lastTranscriptTimeRef st))
                / 60000)))
   \<and> (inFlight (observe ft w now st) \<noteq> inFlight st \<longleftrightarrow>
        now - lastTranscriptTimeRef st > 4800 \<and> wpm (observe ft w now st) > 0)
   \<and> (inFlight (observe ft w now st) \<noteq> inFlight st \<longrightarrow>
        inFlight (observe ft w now st)
          = inFlight st @ [(sliceLast 100 ft, wpm (observe ft w now st))])
   \<and> (now - lastTranscriptTimeRef st > 4800 \<and> w = wordCountRef st \<longrightarrow>
        wpm (observe ft w now st) = 0 \<and> inFlight (observe ft w now st) = inFlight st)
   \<and> (now - lastTranscriptTimeRef st \<le> 4800 \<and> now' - lastTranscriptTimeRef st \<le> 4800 \<longrightarrow>
        wpm (observe ft' w' now' (observe ft w now st)) = wpm st)
   \<and> wpm (observe ft 20 10000 (initialMirror 0)) = 120
   \<and> inFlight (observe ft 20 10000 (initialMirror 0)) = [(sliceLast 100 ft, 120)]
   \<and> wpm (observe ft 10 7000 (initialMirror 0)) = 86
   \<and> wpm (observe ft 10 9500 (initialMirror 0)) = 63
   \<and> wpm (observe ft 1 24000 (initialMirror 0)) = 3
   \<and> wpm (observe ft 12 6400 (initialMirror 0)) = 112"
proof -
  let ?e = "now - lastTranscriptTimeRef st"
  let ?c = "rateAt st w now"
  have c1: "?e \<le> 4800 \<longrightarrow> wpm (observe ft w now st) = wpm st \<and> observe ft w now st = st"
    by (simp add: observe_below)
  have c2: "?e > 4800 \<longrightarrow>
        wpm (observe ft w now st) = max 0 ?c
      \<and> wordCountRef (observe ft w now st) = w
      \<and> lastTranscriptTimeRef (observe ft w now st) = now"
    by (simp add: observe_above)
  have c3: "?c = Math_round (binary64 (binary64 (rat_of_int w - rat_of_int (wordCountRef st))
            / binary64 (binary64 (rat_of_int now - rat_of_int (lastTranscriptTimeRef st))
                / 60000)))"
    by (simp add: rateAt_def minutesSince_def sub64_def div64_def)
  have fl: "inFlight (observe ft w now st)
              = (if ?e > 4800 \<and> ?c > 0 then inFlight st @ [(sliceLast 100 ft, ?c)]
                 else inFlight st)"
    by (cases "?e > 4800") (simp_all add: observe_above observe_below)
  have pos: "?e > 4800 \<Longrightarrow> wpm (observe ft w now st) > 0 \<longleftrightarrow> ?c > 0"
    by (simp add: observe_above max_def)
  have c4: "inFlight (observe ft w now st) \<noteq> inFlight st \<longleftrightarrow>
        ?e > 4800 \<and> wpm (observe ft w now st) > 0"
    using pos unfolding fl by auto
  have c5: "inFlight (observe ft w now st) \<noteq> inFlight st \<longrightarrow>
        inFlight (observe ft w now st)
          = inFlight st @ [(sliceLast 100 ft, wpm (observe ft w now st))]"
  proof
    assume "inFlight (observe ft w now st) \<noteq> inFlight st"
    then have e: "?e > 4800" and p: "?c > 0" unfolding fl by (auto split: if_splits)
    then have "wpm (observe ft w now st) = ?c" by (simp add: observe_above)
    then show "inFlight (observe ft w now st)
          = inFlight st @ [(sliceLast 100 ft, wpm (observe ft w now st))]"
      using e p unfolding fl by simp
  qed
  have c6: "?e > 4800 \<and> w = wordCountRef st \<longrightarrow>
        wpm (observe ft w now st) = 0 \<and> inFlight (observe ft w now st) = inFlight st"
    by (simp add: observe_above rateAt_same_count)
  have c7: "?e \<le> 4800 \<and> now' - lastTranscriptTimeRef st \<le> 4800 \<longrightarrow>
        wpm (observe ft' w' now' (observe ft w now st)) = wpm st"
    by (simp add: observe_below)
  have c8: "wpm (observe ft 20 10000 (initialMirror 0)) = 120"
    by (simp add: observe_above initial_time rate_20_10000)
  have c9: "inFlight (observe ft 20 10000 (initialMirror 0)) = [(sliceLast 100 ft, 120)]"
    by (simp add: observe_above initial_time rate_20_10000) (simp add: initialMirror_def)
  have c10: "wpm (observe ft 10 7000 (initialMirror 0)) = 86"
    by (simp add: observe_above initial_time rate_10_7000)
  have c11: "wpm (observe ft 10 9500 (initialMirror 0)) = 63"
    by (simp add: observe_above initial_time rate_10_9500)
  have c12: "wpm (observe ft 1 24000 (initialMirror 0)) = 3"
    by (simp add: observe_above initial_time rate_1_24000)
  have c13: "wpm (observe ft 12 6400 (initialMirror 0)) = 112"
    by (simp add: observe_above initial_time rate_12_6400)
  show ?thesis
    by (intro conjI) (fact c1 c2 c3 c4 c5 c6 c7 c8 c9 c10 c11 c12 c13)+
qed

theorem pacer_observe_witness:
  "3000 - lastTranscriptTimeRef (initialMirror 0) \<le> 4800
   \<and> wpm (observe ''so'' 7 3000 (initialMirror 0)) = 0
   \<and> 10000 - lastTranscriptTimeRef (initialMirror 0) > 4800
   \<and> wpm (observe ''so our app'' 20 10000 (initialMirror 0)) = 120
   \<and> inFlight (observe ''so our app'' 20 10000 (initialMirror 0)) = [(''so our app'', 120)]
   \<and> wordCountRef (initialMirror 0) = 0
   \<and> inFlight (observe ''so'' 0 10000 (initialMirror 0)) = []"
proof -
  note a = pacer_observe [where now = 3000 and st = "initialMirror 0" and ft = "''so''"
      and w = 7 and now' = 3000 and ft' = "''so''" and w' = 7]
  note b = pacer_observe [where now = 10000 and st = "initialMirror 0"
      and ft = "''so our app''" and w = 20 and now' = 3000 and ft' = "''so''" and w' = 7]
  note c = pacer_observe [where now = 10000 and st = "initialMirror 0" and ft = "''so''"
      and w = 0 and now' = 3000 and ft' = "''so''" and w' = 7]
  have h1: "3000 - lastTranscriptTimeRef (initialMirror 0) \<le> 4800"
    by (simp add: initial_time)
  have h2: "10000 - lastTranscriptTimeRef (initialMirror 0) > 4800"
    by (simp add: initial_time)
  have h3: "wordCountRef (initialMirror 0) = 0" by (simp add: initialMirror_def)
  have i: "wpm (initialMirror 0) = 0" "inFlight (initialMirror 0) = []"
    by (simp_all add: initialMirror_def)
  have s: "sliceLast 100 ''so our app'' = ''so our app''" by (simp add: sliceLast_def)
  have w1: "wpm (observe ''so'' 7 3000 (initialMirror 0)) = wpm (initialMirror 0)"
    using a h1 by blast
  have w2: "wpm (observe ''so our app'' 20 10000 (initialMirror 0)) = 120"
    using b by blast
  have w3: "inFlight (observe ''so our app'' 20 10000 (initialMirror 0))
              = [(sliceLast 100 ''so our app'', 120)]"
    using b by blast
  have w4: "inFlight (observe ''so'' 0 10000 (initialMirror 0)) = inFlight (initialMirror 0)"
    using c h2 h3 by metis
  show ?thesis using h1 h2 h3 w1 w2 w3 w4 i s by simp
qed

section \<open>Tips in flight\<close>

lemma run_two_requests:
  "run echoCoach (initialMirror 0)
     [OnResult [(True, ''So our'')] 5000,
      OnResult [(True, ''So our app is live'')] 10000]
   = (initialMirror 0)\<lparr>wpm := 36, wordCountRef := 5, lastTranscriptTimeRef := 10000,
        inFlight := [(''so our'', 24), (''so our app is live'', 36)]\<rparr>"
  by code_simp

lemma run_two_tips:
  "run echoCoach (initialMirror 0)
     [OnResult [(True, ''So our'')] 5000,
      OnResult [(True, ''So our app is live'')] 10000,
      TipSettles 1, TipSettles 0]
   = (initialMirror 0)\<lparr>wpm := 36, wordCountRef := 5, lastTranscriptTimeRef := 10000,
        coachFeedback := ''Heard: so our'', utterance := Some ''Heard: so our''\<rparr>"
  by code_simp

text \<open>
  C8 says that at most one tip request is in flight and that a late reply to an earlier
  request is dropped. Two results 5 s apart start two requests, both in flight; when the
  reply to the second comes first and the reply to the first after it, the first request's
  tip is what is shown and spoken.
\<close>

theorem one_tip_in_flight_counterexample:
  "length (inFlight (run echoCoach (initialMirror 0)
              [OnResult [(True, ''So our'')] 5000,
               OnResult [(True, ''So our app is live'')] 10000])) = 2
   \<and> getRealTimeFeedback echoCoach ''so our'' 24 = Inr ''Heard: so our''
   \<and> getRealTimeFeedback echoCoach ''so our app is live'' 36 = Inr ''Heard: so our app is live''
   \<and> coachFeedback (run echoCoach (initialMirror 0)
              [OnResult [(True, ''So our'')] 5000,
               OnResult [(True, ''So our app is live'')] 10000,
               TipSettles 1, TipSettles 0]) = ''Heard: so our''
   \<and> utterance (run echoCoach (initialMirror 0)
              [OnResult [(True, ''So our'')] 5000,
               OnResult [(True, ''So our app is live'')] 10000,
               TipSettles 1, TipSettles 0]) = Some ''Heard: so our''"
  unfolding run_two_requests run_two_tips
  by (simp add: initialMirror_def getRealTimeFeedback_def feedbackBody_def echoCoach_def)

text \<open>
  C8, amended. Every observation that computes a positive rate starts a request, whatever
  is already in flight (only the 4800 ms between computations limit them); the request
  carries the rate as line 135 computes it. Every reply that arrives is shown and spoken,
  whichever request it answers: the tip on display is that of the reply that arrived last.
\<close>

theorem tips_fire_and_forget:
  "(now - lastTranscriptTimeRef st > 4800 \<and> 0 < rateAt st w now \<longrightarrow>
      inFlight (observe ft w now st) = inFlight st @ [(sliceLast 100 ft, rateAt st w now)])
   \<and> (i < length (inFlight st) \<longrightarrow>
        (\<exists>fb. getRealTimeFeedback generateContent (fst (inFlight st ! i)) (snd (inFlight st ! i))
                 = Inr fb
             \<and> coachFeedback (tipSettles generateContent i st) = fb
             \<and> utterance (tipSettles generateContent i st) = Some fb
             \<and> inFlight (tipSettles generateContent i st) = dropNth i (inFlight st)))"
proof -
  have c1: "now - lastTranscriptTimeRef st > 4800 \<and> 0 < rateAt st w now \<longrightarrow>
      inFlight (observe ft w now st) = inFlight st @ [(sliceLast 100 ft, rateAt st w now)]"
    by (simp add: observe_above)
  have c2: "i < length (inFlight st) \<longrightarrow>
        (\<exists>fb. getRealTimeFeedback generateContent (fst (inFlight st ! i)) (snd (inFlight st ! i))
                 = Inr fb
             \<and> coachFeedback (tipSettles generateContent i st) = fb
             \<and> utterance (tipSettles generateContent i st) = Some fb
             \<and> inFlight (tipSettles generateContent i st) = dropNth i (inFlight st))"
  proof
    assume i: "i < length (inFlight st)"
    obtain fb where fb: "getRealTimeFeedback generateContent (fst (inFlight st ! i))
                           (snd (inFlight st ! i)) = Inr fb"
      using getRealTimeFeedback_returns by blast
    have "coachFeedback (tipSettles generateContent i st) = fb
             \<and> utterance (tipSettles generateContent i st) = Some fb
             \<and> inFlight (tipSettles generateContent i st) = dropNth i (inFlight st)"
      using i fb by (simp add: tipSettles_def)
    with fb show "\<exists>fb. getRealTimeFeedback generateContent (fst (inFlight st ! i))
                           (snd (inFlight st ! i)) = Inr fb
             \<and> coachFeedback (tipSettles generateContent i st) = fb
             \<and> utterance (tipSettles generateContent i st) = Some fb
             \<and> inFlight (tipSettles generateContent i st) = dropNth i (inFlight st)"
      by blast
  qed
  show ?thesis using c1 c2 by blast
qed

lemma rate_second_request:
  "rateAt ((initialMirror 0)\<lparr>wordCountRef := 2, lastTranscriptTimeRef := 5000,
            inFlight := [(''so our'', 24)]\<rparr>) 5 10000 = 36"
  by code_simp

theorem tips_fire_and_forget_witness:
  "(1::nat) < length [(''so our'', 24::int), (''so our app is live'', 36)]
   \<and> coachFeedback (tipSettles echoCoach 0
        ((initialMirror 0)\<lparr>inFlight := [(''so our'', 24), (''so our app is live'', 36)]\<rparr>))
       = ''Heard: so our''
   \<and> 10000 - lastTranscriptTimeRef
        ((initialMirror 0)\<lparr>wordCountRef := 2, lastTranscriptTimeRef := 5000,
            inFlight := [(''so our'', 24)]\<rparr>) > 4800
   \<and> inFlight (observe ''so our app is live'' 5 10000
        ((initialMirror 0)\<lparr>wordCountRef := 2, lastTranscriptTimeRef := 5000,
            inFlight := [(''so our'', 24)]\<rparr>))
       = [(''so our'', 24), (''so our app is live'', 36)]"
  using tips_fire_and_forget [where st = "(initialMirror 0)\<lparr>inFlight := [(''so our'', 24),
          (''so our app is live'', 36)]\<rparr>" and i = 0 and generateContent = echoCoach
          and now = 0 and w = 0 and ft = "[]"]
      tips_fire_and_forget [where st = "(initialMirror 0)\<lparr>wordCountRef := 2,
          lastTranscriptTimeRef := 5000, inFlight := [(''so our'', 24)]\<rparr>" and i = 0
          and generateContent = echoCoach and now = 10000 and w = 5
          and ft = "''so our app is live''"]
      rate_second_request
  by (simp add: initialMirror_def getRealTimeFeedback_def feedbackBody_def echoCoach_def
        sliceLast_def)

section \<open>Starting a recording\<close>

text \<open>
  C9 says that \<open>startRecording\<close> resets the word count, the time of the last computation
  and the rate. After a first recording in which two words were heard at 5 s, a second
  \<open>startRecording\<close> leaves all three as they were.
\<close>

theorem startRecording_resets_counterexample:
  "wordCountRef (run echoCoach ((initialMirror 0)\<lparr>hasStream := True, hasRecognition := True\<rparr>)
      [StartRecording, OnResult [(True, ''So our'')] 5000, StopRecording, StartRecording]) = 2
   \<and> wpm (run echoCoach ((initialMirror 0)\<lparr>hasStream := True, hasRecognition := True\<rparr>)
      [StartRecording, OnResult [(True, ''So our'')] 5000, StopRecording, StartRecording]) = 24
   \<and> lastTranscriptTimeRef
        (run echoCoach ((initialMirror 0)\<lparr>hasStream := True, hasRecognition := True\<rparr>)
      [StartRecording, OnResult [(True, ''So our'')] 5000, StopRecording, StartRecording]) = 5000
   \<and> isRecording (run echoCoach ((initialMirror 0)\<lparr>hasStream := True, hasRecognition := True\<rparr>)
      [StartRecording, OnResult [(True, ''So our'')] 5000, StopRecording, StartRecording])"
  by code_simp

text \<open>
  C9, amended. \<open>startRecording\<close> never changes the word count, the time of the last
  computation or \<^verbatim>\<open>wpm\<close>. Without a camera stream it changes nothing. With one it
  empties the recorded chunks, creates the recorder and sets \<^verbatim>\<open>isRecording\<close>; unless
  the recogniser is already listening it starts it, if there is one, and sets the recording
  time to 0.
\<close>

theorem startRecording_keeps_pacer:
  "wordCountRef (startRecording st) = wordCountRef st
   \<and> lastTranscriptTimeRef (startRecording st) = lastTranscriptTimeRef st
   \<and> wpm (startRecording st) = wpm st
   \<and> (\<not> hasStream st \<longrightarrow> startRecording st = st)
   \<and> (hasStream st \<longrightarrow>
        chunksRef (startRecording st) = [] \<and> hasRecorder (startRecording st)
        \<and> isRecording (startRecording st))
   \<and> (hasStream st \<and> \<not> (hasRecognition st \<and> listening st) \<longrightarrow>
        recordingTime (startRecording st) = 0
        \<and> listening (startRecording st) = hasRecognition st)"
proof (cases "hasStream st")
  case False
  then have "startRecording st = st" by (simp add: startRecording_def)
  with False show ?thesis by simp
next
  case True
  show ?thesis
  proof (cases "hasRecognition st \<and> listening st")
    case True
    with \<open>hasStream st\<close> have "startRecording st
        = st\<lparr>chunksRef := [], hasRecorder := True, isRecording := True\<rparr>"
      by (simp add: startRecording_def Let_def)
    with True \<open>hasStream st\<close> show ?thesis by simp
  next
    case False
    with \<open>hasStream st\<close> have "startRecording st
        = st\<lparr>chunksRef := [], hasRecorder := True, isRecording := True,
             listening := hasRecognition st, recordingTime := 0\<rparr>"
      by (auto simp: startRecording_def Let_def)
    with False \<open>hasStream st\<close> show ?thesis by simp
  qed
qed

theorem startRecording_keeps_pacer_witness:
  "hasStream ((initialMirror 0)\<lparr>hasStream := True, hasRecognition := True, wpm := 24,
        wordCountRef := 2, lastTranscriptTimeRef := 5000, recordingTime := 7\<rparr>)
   \<and> wordCountRef (startRecording ((initialMirror 0)\<lparr>hasStream := True, hasRecognition := True,
        wpm := 24, wordCountRef := 2, lastTranscriptTimeRef := 5000, recordingTime := 7\<rparr>)) = 2
   \<and> wpm (startRecording ((initialMirror 0)\<lparr>hasStream := True, hasRecognition := True,
        wpm := 24, wordCountRef := 2, lastTranscriptTimeRef := 5000, recordingTime := 7\<rparr>)) = 24
   \<and> recordingTime (startRecording ((initialMirror 0)\<lparr>hasStream := True, hasRecognition := True,
        wpm := 24, wordCountRef := 2, lastTranscriptTimeRef := 5000, recordingTime := 7\<rparr>)) = 0
   \<and> \<not> hasStream (initialMirror 0)
   \<and> startRecording (initialMirror 0) = initialMirror 0"
  using startRecording_keeps_pacer [of "(initialMirror 0)\<lparr>hasStream := True,
        hasRecognition := True, wpm := 24, wordCountRef := 2, lastTranscriptTimeRef := 5000,
        recordingTime := 7\<rparr>"]
    startRecording_keeps_pacer [of "initialMirror 0"]
  by (simp add: initialMirror_def)

end
